theory Spec2Isabelle
  imports Complex_Main "HOL-Library.AList"
begin

section \<open>Python values\<close>

text \<open>
  A Python float is a finite number, an infinity or NaN. Comparisons with NaN are false;
  the rounding of finite values is not modelled (a finite float is taken as the real it denotes),
  their range is: an integer too large for a float is refused by \<^verbatim>\<open>float\<close>.
\<close>

datatype pyfloat = Fin real | PInf | NInf | NaN

fun f_lt :: "pyfloat \<Rightarrow> pyfloat \<Rightarrow> bool" where
  "f_lt NaN b = False"
| "f_lt a NaN = False"
| "f_lt (Fin x) (Fin y) = (x < y)"
| "f_lt (Fin x) PInf = True"
| "f_lt (Fin x) NInf = False"
| "f_lt PInf b = False"
| "f_lt NInf NInf = False"
| "f_lt NInf b = True"

definition f_le :: "pyfloat \<Rightarrow> pyfloat \<Rightarrow> bool" where
  "f_le a b = (f_lt a b \<or> (a = b \<and> a \<noteq> NaN))"

definition f_ge :: "pyfloat \<Rightarrow> pyfloat \<Rightarrow> bool" where
  "f_ge a b = f_le b a"

text \<open>
  The builtins \<^verbatim>\<open>min(a, b)\<close> and \<^verbatim>\<open>max(a, b)\<close> keep the first argument unless the
  second is strictly smaller (strictly larger).
\<close>

definition py_min :: "pyfloat \<Rightarrow> pyfloat \<Rightarrow> pyfloat" where
  "py_min a b = (if f_lt b a then b else a)"

definition py_max :: "pyfloat \<Rightarrow> pyfloat \<Rightarrow> pyfloat" where
  "py_max a b = (if f_lt a b then b else a)"

text \<open>What \<^verbatim>\<open>json.loads\<close> returns: \<open>JNull\<close> is Python's \<^verbatim>\<open>None\<close>, a number
  without fraction or exponent is an \<^verbatim>\<open>int\<close> of any size, any other number a float, an
  object is a dict in insertion order.\<close>

datatype json =
    JNull
  | JBool bool
  | JInt int
  | JNum pyfloat
  | JStr string
  | JArr "json list"
  | JObj "(string \<times> json) list"

fun truthy :: "json \<Rightarrow> bool" where
  "truthy JNull = False"
| "truthy (JBool b) = b"
| "truthy (JInt n) = (n \<noteq> 0)"
| "truthy (JNum x) = (x \<noteq> Fin 0)"
| "truthy (JStr s) = (s \<noteq> [])"
| "truthy (JArr xs) = (xs \<noteq> [])"
| "truthy (JObj kvs) = (kvs \<noteq> [])"

text \<open>Truth value of an \<^verbatim>\<open>Optional[str]\<close> and of an optional JSON value.\<close>

fun truthy_str :: "string option \<Rightarrow> bool" where
  "truthy_str None = False"
| "truthy_str (Some s) = (s \<noteq> [])"

fun truthy_opt :: "json option \<Rightarrow> bool" where
  "truthy_opt None = False"
| "truthy_opt (Some v) = truthy v"

text \<open>A value read from a dict and stored in an optional field: \<^verbatim>\<open>None\<close> is absence.\<close>

fun optional :: "json \<Rightarrow> json option" where
  "optional JNull = None"
| "optional v = Some v"

subsection \<open>Exceptions\<close>

datatype exc_class =
    ValueError | TypeError | AttributeError | KeyError | IndexError | OverflowError
  | JSONDecodeError | RequestTimeout | RequestException
  | RuntimeError | FileNotFoundError | ValidationError | SqliteError | OtherError

datatype exn = Exn exc_class string

fun exc_class_of :: "exn \<Rightarrow> exc_class" where
  "exc_class_of (Exn c m) = c"

fun str_of_exn :: "exn \<Rightarrow> string" where
  "str_of_exn (Exn c m) = m"

definition bindE :: "exn + 'a \<Rightarrow> ('a \<Rightarrow> exn + 'b) \<Rightarrow> exn + 'b" where
  "bindE m f = (case m of Inl e \<Rightarrow> Inl e | Inr x \<Rightarrow> f x)"

subsection \<open>Strings\<close>

definition is_space :: "char \<Rightarrow> bool" where
  "is_space c = (c \<in> set [CHR 0x09, CHR 0x0A, CHR 0x0B, CHR 0x0C, CHR 0x0D,
                          CHR 0x1C, CHR 0x1D, CHR 0x1E, CHR 0x1F, CHR 0x20, CHR 0x85, CHR 0xA0])"

definition isspace :: "string \<Rightarrow> bool" where
  "isspace s = (s \<noteq> [] \<and> list_all is_space s)"

definition strip :: "string \<Rightarrow> string" where
  "strip s = rev (dropWhile is_space (rev (dropWhile is_space s)))"

definition lower_char :: "char \<Rightarrow> char" where
  "lower_char c =
     (let n = (of_char c :: nat)
      in if (65 \<le> n \<and> n \<le> 90) \<or> (192 \<le> n \<and> n \<le> 222 \<and> n \<noteq> 215)
         then char_of (n + 32) else c)"

definition lower :: "string \<Rightarrow> string" where
  "lower s = map lower_char s"

text \<open>\<^verbatim>\<open>sub in s\<close> on strings.\<close>

fun contains :: "string \<Rightarrow> string \<Rightarrow> bool" where
  "contains sub [] = (sub = [])"
| "contains sub (c # cs) = (take (length sub) (c # cs) = sub \<or> contains sub cs)"

text \<open>
  \<^verbatim>\<open>s.split(sep)\<close> for a non-empty separator: a left-to-right scan for non-overlapping
  occurrences. \<open>k\<close> counts the characters of a separator still to be skipped, \<open>cur\<close> is the
  current piece, reversed.
\<close>

fun split_scan :: "string \<Rightarrow> nat \<Rightarrow> string \<Rightarrow> string \<Rightarrow> string list" where
  "split_scan sep k cur [] = [rev cur]"
| "split_scan sep k cur (c # cs) =
     (if 0 < k then split_scan sep (k - 1) cur cs
      else if take (length sep) (c # cs) = sep then rev cur # split_scan sep (length sep - 1) [] cs
      else split_scan sep 0 (c # cur) cs)"

definition split :: "string \<Rightarrow> string \<Rightarrow> string list" where
  "split s sep = split_scan sep 0 [] s"

text \<open>\<^verbatim>\<open>xs[i]\<close> on a list: IndexError out of range.\<close>

definition index :: "'a list \<Rightarrow> nat \<Rightarrow> string \<Rightarrow> exn + 'a" where
  "index xs i msg = (if i < length xs then Inr (xs ! i) else Inl (Exn IndexError msg))"

section \<open>Data model (models.py, main.py)\<close>

text \<open>
  The Pydantic models. Field names are global in a theory, so the fields of
  \<^verbatim>\<open>Experience\<close> and the \<^verbatim>\<open>summary\<close> and \<^verbatim>\<open>misc\<close> of \<^verbatim>\<open>ResumeInfo\<close> carry
  a prefix; \<open>None\<close> is Python's \<^verbatim>\<open>None\<close>.
\<close>

record Experience =
  exp_job_title :: "string option"
  exp_company :: "string option"
  duration :: "string option"
  description :: "string option"

record Education =
  degree :: "string option"
  institution :: "string option"
  years :: "string option"

record ResumeInfo =
  candidate_name :: "string option"
  email :: "string option"
  phone :: "string option"
  resume_summary :: "string option"
  skills :: "string list"
  experience :: "Experience list"
  education :: "Education list"
  resume_misc :: "(string \<times> json) list option"

record JobDescriptionInfo =
  job_title :: string
  company :: "string option"
  location :: "string option"
  summary :: "string option"
  responsibilities :: "string list"
  required_skills :: "string list"
  preferred_skills :: "string list"
  required_experience :: "string option"
  required_education :: "string option"
  misc :: "(string \<times> json) list option"

text \<open>
  The job catalog as \<^verbatim>\<open>pandas.read_csv\<close> returns it: the column names and, for each row,
  the cells of the four columns the program reads (\<open>None\<close> is a missing cell, NaN).
\<close>

record job_row =
  Job_Title :: "string option"
  Job_Description :: "string option"
  Company :: "string option"
  Location :: "string option"

record dataframe =
  columns :: "string list"
  rows :: "job_row list"

text \<open>The state that flows through the graph (\<^verbatim>\<open>AppState\<close>).\<close>

record AppState =
  uploaded_file_content :: "string option"
  uploaded_filename :: "string option"
  selected_job_title :: "string option"
  job_descriptions_df :: "dataframe option"
  parsed_resume :: "ResumeInfo option"
  parsed_jd :: "JobDescriptionInfo option"
  match_score :: "pyfloat option"
  feedback :: "json option"
  db_save_status :: bool
  email_sent_status :: bool
  error_message :: "string option"

text \<open>
  The e-mail that \<^verbatim>\<open>send_application_email\<close> composes: the three headers and the body,
  which is one of two templates filled with the candidate's name, the job title, the score and
  the feedback.
\<close>

datatype body =
    Congratulatory string string pyfloat json
  | Rejection string string pyfloat json

record message =
  Subject :: string
  From :: string
  To :: string
  content :: body

section \<open>The world outside the program\<close>

text \<open>
  What the process environment, the file system, the libraries and the remote services answer.
  An exception raised there is a value \<open>Inl e\<close>.
\<close>

datatype http_result = Raises exn | Response json

record world =
  JOB_DATA_CSV :: string
  csv_exists :: bool
  read_csv :: "exn + dataframe"
  extract_resume :: "string \<Rightarrow> string \<Rightarrow> exn + ResumeInfo"
  DEEPSEEK_API_KEY :: "string option"
  post_jd :: "string \<Rightarrow> string \<Rightarrow> http_result"
  post_match :: "string \<Rightarrow> string \<Rightarrow> http_result"
  json_loads :: "string \<Rightarrow> json option"
  float_of_str :: "string \<Rightarrow> pyfloat option"
  resume_json :: "ResumeInfo \<Rightarrow> exn + string"
  jd_json :: "JobDescriptionInfo \<Rightarrow> exn + string"
  coerce_str :: "json \<Rightarrow> string option"
  coerce_dict :: "json \<Rightarrow> (string \<times> json) list option"
  db_insert :: "ResumeInfo \<Rightarrow> JobDescriptionInfo \<Rightarrow> pyfloat \<Rightarrow> json option \<Rightarrow> exn + unit"
  EMAIL_SENDER :: "string option"
  EMAIL_PASSWORD :: "string option"
  set_header :: "string \<Rightarrow> string \<Rightarrow> exn + unit"
  smtp_send :: "message \<Rightarrow> exn + unit"
  lib_text :: "exc_class \<Rightarrow> string"

text \<open>An exception raised by the interpreter or a library, with the text the world gives it.\<close>

definition raise :: "world \<Rightarrow> exc_class \<Rightarrow> exn + 'a" where
  "raise w c = Inl (Exn c (lib_text w c))"

subsection \<open>Operations of the interpreter on JSON values\<close>

text \<open>\<^verbatim>\<open>d.get(k, dflt)\<close>: only a dict has the method.\<close>

definition py_get :: "world \<Rightarrow> json \<Rightarrow> string \<Rightarrow> json \<Rightarrow> exn + json" where
  "py_get w d k dflt =
     (case d of
        JObj kvs \<Rightarrow> Inr (case map_of kvs k of None \<Rightarrow> dflt | Some v \<Rightarrow> v)
      | _ \<Rightarrow> raise w AttributeError)"

text \<open>\<^verbatim>\<open>k in d\<close> for a string \<open>k\<close>.\<close>

definition has_key :: "world \<Rightarrow> string \<Rightarrow> json \<Rightarrow> exn + bool" where
  "has_key w k d =
     (case d of
        JObj kvs \<Rightarrow> Inr (map_of kvs k \<noteq> None)
      | JArr xs \<Rightarrow> Inr (JStr k \<in> set xs)
      | JStr s \<Rightarrow> Inr (contains k s)
      | _ \<Rightarrow> raise w TypeError)"

text \<open>\<^verbatim>\<open>d[k]\<close> for a string \<open>k\<close>.\<close>

definition subscript :: "world \<Rightarrow> json \<Rightarrow> string \<Rightarrow> exn + json" where
  "subscript w d k =
     (case d of
        JObj kvs \<Rightarrow> (case map_of kvs k of None \<Rightarrow> raise w KeyError | Some v \<Rightarrow> Inr v)
      | _ \<Rightarrow> raise w TypeError)"

definition py_len :: "world \<Rightarrow> json \<Rightarrow> exn + nat" where
  "py_len w v =
     (case v of
        JStr s \<Rightarrow> Inr (length s)
      | JArr xs \<Rightarrow> Inr (length xs)
      | JObj kvs \<Rightarrow> Inr (length kvs)
      | _ \<Rightarrow> raise w TypeError)"

text \<open>\<^verbatim>\<open>v[0]\<close>.\<close>

definition first_item :: "world \<Rightarrow> json \<Rightarrow> exn + json" where
  "first_item w v =
     (case v of
        JArr xs \<Rightarrow> (case xs of [] \<Rightarrow> raise w IndexError | x # _ \<Rightarrow> Inr x)
      | JStr s \<Rightarrow> (case s of [] \<Rightarrow> raise w IndexError | c # _ \<Rightarrow> Inr (JStr [c]))
      | JObj kvs \<Rightarrow> raise w KeyError
      | _ \<Rightarrow> raise w TypeError)"

text \<open>\<^verbatim>\<open>json.loads(v)\<close>.\<close>

definition loads :: "world \<Rightarrow> json \<Rightarrow> exn + json" where
  "loads w v =
     (case v of
        JStr s \<Rightarrow> (case json_loads w s of None \<Rightarrow> raise w JSONDecodeError | Some d \<Rightarrow> Inr d)
      | _ \<Rightarrow> raise w TypeError)"

text \<open>
  \<^verbatim>\<open>float(v)\<close>. An \<^verbatim>\<open>int\<close> is rounded to the nearest double; from \<open>2 ^ 1024 - 2 ^ 970\<close>
  on (half-way between the largest double and \<open>2 ^ 1024\<close>) there is none and the conversion
  raises OverflowError.
\<close>

definition float_overflow_bound :: int where
  "float_overflow_bound = 2 ^ 1024 - 2 ^ 970"

definition py_float :: "world \<Rightarrow> json \<Rightarrow> exn + pyfloat" where
  "py_float w v =
     (case v of
        JInt n \<Rightarrow>
          if \<bar>n\<bar> < float_overflow_bound then Inr (Fin (of_int n)) else raise w OverflowError
      | JNum x \<Rightarrow> Inr x
      | JBool b \<Rightarrow> Inr (Fin (if b then 1 else 0))
      | JStr s \<Rightarrow> (case float_of_str w s of None \<Rightarrow> raise w ValueError | Some x \<Rightarrow> Inr x)
      | _ \<Rightarrow> raise w TypeError)"

text \<open>
  Both language-model calls read the reply the same way:
  \<^verbatim>\<open>'choices' in response_data and len(response_data['choices']) > 0\<close>, then
  \<^verbatim>\<open>response_data['choices'][0].get('message', {}).get('content', '{}')\<close>.
\<close>

definition choices_present :: "world \<Rightarrow> json \<Rightarrow> exn + bool" where
  "choices_present w d =
     bindE (has_key w ''choices'' d) (\<lambda>b.
       if \<not> b then Inr False
       else bindE (subscript w d ''choices'') (\<lambda>c.
              bindE (py_len w c) (\<lambda>n. Inr (0 < n))))"

definition message_content :: "world \<Rightarrow> json \<Rightarrow> exn + json" where
  "message_content w d =
     bindE (subscript w d ''choices'') (\<lambda>c.
       bindE (first_item w c) (\<lambda>i.
         bindE (py_get w i ''message'' (JObj [])) (\<lambda>m.
           py_get w m ''content'' (JStr ''{}''))))"

text \<open>\<^verbatim>\<open>message_content.split("```json")[1].split("```")[0].strip()\<close>.\<close>

definition extract_fenced :: "world \<Rightarrow> string \<Rightarrow> exn + string" where
  "extract_fenced w s =
     bindE (index (split s ''```json'') 1 (lib_text w IndexError)) (\<lambda>p.
       bindE (index (split p ''```'') 0 (lib_text w IndexError)) (\<lambda>q.
         Inr (strip q)))"

section \<open>Scoring (matcher.py)\<close>

definition default_response :: "pyfloat \<times> json" where
  "default_response = (Fin 0, JStr ''Error: Could not generate matching results.'')"

definition error_response :: "pyfloat \<times> json" where
  "error_response = (Fin 0, JStr ''An error occurred during the matching process.'')"

text \<open>\<^verbatim>\<open>if not 0 <= score <= 100: score = max(0.0, min(100.0, score))\<close>.\<close>

definition clamp_score :: "pyfloat \<Rightarrow> pyfloat" where
  "clamp_score score =
     (if \<not> (f_le (Fin 0) score \<and> f_le score (Fin 100))
      then py_max (Fin 0) (py_min (Fin 100) score)
      else score)"

text \<open>Reading score and feedback off the decoded reply; \<open>dflt\<close> is the feedback default.\<close>

definition read_result :: "world \<Rightarrow> json \<Rightarrow> string \<Rightarrow> exn + (pyfloat \<times> json)" where
  "read_result w result_data dflt =
     bindE (py_get w result_data ''match_score'' (JInt 0)) (\<lambda>v.
       bindE (py_float w v) (\<lambda>score.
         bindE (py_get w result_data ''feedback'' (JStr dflt)) (\<lambda>feedback_text.
           Inr (clamp_score score, feedback_text))))"

text \<open>
  The handler of \<^verbatim>\<open>json.JSONDecodeError\<close>: the reply is retried as JSON wrapped in a
  markdown fence; any exception in the retry gives the default response.
\<close>

definition fenced_result :: "world \<Rightarrow> string \<Rightarrow> pyfloat \<times> json" where
  "fenced_result w s =
     (if contains ''```json'' s
      then (case bindE (extract_fenced w s) (\<lambda>extracted_json_str.
                   bindE (loads w (JStr extracted_json_str)) (\<lambda>result_data.
                     read_result w result_data ''Feedback could not be generated (extracted).''))
            of Inr r \<Rightarrow> r
             | Inl e \<Rightarrow> default_response)
      else default_response)"

text \<open>
  The inner \<^verbatim>\<open>try\<close>: a string that does not decode goes to the JSONDecodeError handler,
  every other exception (a content that is no string, a reply that is no dict, a score that
  \<^verbatim>\<open>float\<close> refuses) to \<^verbatim>\<open>except Exception\<close>.
\<close>

definition parse_content :: "world \<Rightarrow> json \<Rightarrow> pyfloat \<times> json" where
  "parse_content w mc =
     (case mc of
        JStr s \<Rightarrow>
          (case json_loads w s of
             None \<Rightarrow> fenced_result w s
           | Some result_data \<Rightarrow>
               (case read_result w result_data ''Feedback could not be generated.'' of
                  Inr r \<Rightarrow> r
                | Inl e \<Rightarrow> default_response))
      | _ \<Rightarrow> default_response)"

text \<open>The outer \<^verbatim>\<open>try\<close> body of \<^verbatim>\<open>call_deepseek_for_matching\<close>.\<close>

definition matching_request :: "world \<Rightarrow> string \<Rightarrow> string \<Rightarrow> exn + (pyfloat \<times> json)" where
  "matching_request w resume_js jd_js =
     (case post_match w resume_js jd_js of
        Raises e \<Rightarrow> Inl e
      | Response response_data \<Rightarrow>
          bindE (choices_present w response_data) (\<lambda>ok.
            if ok then bindE (message_content w response_data) (\<lambda>mc. Inr (parse_content w mc))
            else Inr default_response))"

definition call_deepseek_for_matching :: "world \<Rightarrow> string \<Rightarrow> string \<Rightarrow> pyfloat \<times> json" where
  "call_deepseek_for_matching w resume_js jd_js =
     (if \<not> truthy_str (DEEPSEEK_API_KEY w) then default_response
      else (case matching_request w resume_js jd_js of
              Inl e \<Rightarrow> default_response
            | Inr r \<Rightarrow> r))"

text \<open>
  \<^verbatim>\<open>calculate_match_and_feedback\<close>: the result is a sum, as for every function the stages
  call inside a \<^verbatim>\<open>try\<close>; its own handler turns each exception into \<open>error_response\<close>.
\<close>

definition calculate_match_and_feedback ::
  "world \<Rightarrow> ResumeInfo \<Rightarrow> JobDescriptionInfo \<Rightarrow> exn + (pyfloat \<times> json)" where
  "calculate_match_and_feedback w resume_info jd_info =
     (case bindE (resume_json w resume_info) (\<lambda>resume_json_str.
             bindE (jd_json w jd_info) (\<lambda>jd_json_str.
               Inr (call_deepseek_for_matching w resume_json_str jd_json_str)))
      of Inr r \<Rightarrow> Inr r
       | Inl e \<Rightarrow> Inr error_response)"

section \<open>Job descriptions (jd_parser.py)\<close>

text \<open>\<^verbatim>\<open>'{t}'\<close> inside an f-string.\<close>

definition quoted :: "string \<Rightarrow> string" where
  "quoted t = CHR 0x27 # t @ [CHR 0x27]"

text \<open>\<^verbatim>\<open>{t}\<close> inside an f-string, for an optional string.\<close>

fun py_str :: "string option \<Rightarrow> string" where
  "py_str None = ''None''"
| "py_str (Some t) = t"

text \<open>The JSONDecodeError handler of \<^verbatim>\<open>call_deepseek_for_jd_parsing\<close>.\<close>

definition jd_fenced :: "world \<Rightarrow> string \<Rightarrow> string" where
  "jd_fenced w s =
     (if contains ''```json'' s
      then (case bindE (extract_fenced w s) (\<lambda>extracted_json.
                   bindE (loads w (JStr extracted_json)) (\<lambda>d. Inr extracted_json))
            of Inr x \<Rightarrow> x
             | Inl e \<Rightarrow> ''{}'')
      else ''{}'')"

text \<open>
  Its inner \<^verbatim>\<open>try\<close> has that handler only: a content that is no string raises TypeError
  to the outer \<^verbatim>\<open>try\<close>.
\<close>

definition jd_content :: "world \<Rightarrow> json \<Rightarrow> exn + string" where
  "jd_content w mc =
     (case mc of
        JStr s \<Rightarrow> (case json_loads w s of None \<Rightarrow> Inr (jd_fenced w s) | Some d \<Rightarrow> Inr s)
      | _ \<Rightarrow> raise w TypeError)"

definition jd_request :: "world \<Rightarrow> string \<Rightarrow> string \<Rightarrow> exn + string" where
  "jd_request w text title =
     (case post_jd w text title of
        Raises e \<Rightarrow> Inl e
      | Response response_data \<Rightarrow>
          bindE (choices_present w response_data) (\<lambda>ok.
            if ok then bindE (message_content w response_data) (jd_content w)
            else Inr ''{}''))"

definition call_deepseek_for_jd_parsing :: "world \<Rightarrow> string \<Rightarrow> string \<Rightarrow> string" where
  "call_deepseek_for_jd_parsing w text title =
     (if \<not> truthy_str (DEEPSEEK_API_KEY w) then ''{}''
      else (case jd_request w text title of
              Inl e \<Rightarrow> ''{}''
            | Inr s \<Rightarrow> s))"

subsection \<open>The constructor of \<^verbatim>\<open>JobDescriptionInfo\<close>\<close>

text \<open>
  Pydantic's validation of the keyword arguments: a string is kept as it is, a missing key or
  \<^verbatim>\<open>None\<close> gives an optional field its default, a list field wants a list of strings, and
  unknown keys are ignored. What it does with a value of another type (coerce it or refuse it)
  depends on the library's version and is left to the world.
\<close>

definition str_validator :: "world \<Rightarrow> json \<Rightarrow> exn + string" where
  "str_validator w v =
     (case v of
        JStr s \<Rightarrow> Inr s
      | JNull \<Rightarrow> raise w ValidationError
      | _ \<Rightarrow> (case coerce_str w v of None \<Rightarrow> raise w ValidationError | Some s \<Rightarrow> Inr s))"

definition opt_str_field :: "world \<Rightarrow> (string \<times> json) list \<Rightarrow> string \<Rightarrow> exn + string option" where
  "opt_str_field w kvs k =
     (case map_of kvs k of
        None \<Rightarrow> Inr None
      | Some JNull \<Rightarrow> Inr None
      | Some v \<Rightarrow> bindE (str_validator w v) (\<lambda>s. Inr (Some s)))"

fun str_items :: "world \<Rightarrow> json list \<Rightarrow> exn + string list" where
  "str_items w [] = Inr []"
| "str_items w (v # vs) =
     bindE (str_validator w v) (\<lambda>s. bindE (str_items w vs) (\<lambda>ss. Inr (s # ss)))"

definition str_list_field :: "world \<Rightarrow> (string \<times> json) list \<Rightarrow> string \<Rightarrow> exn + string list" where
  "str_list_field w kvs k =
     (case map_of kvs k of
        None \<Rightarrow> Inr []
      | Some (JArr vs) \<Rightarrow> str_items w vs
      | Some v \<Rightarrow> raise w ValidationError)"

definition dict_field ::
  "world \<Rightarrow> (string \<times> json) list \<Rightarrow> string \<Rightarrow> exn + (string \<times> json) list option" where
  "dict_field w kvs k =
     (case map_of kvs k of
        None \<Rightarrow> Inr (Some [])
      | Some JNull \<Rightarrow> Inr None
      | Some (JObj d) \<Rightarrow> Inr (Some d)
      | Some v \<Rightarrow> (case coerce_dict w v of None \<Rightarrow> raise w ValidationError | Some d \<Rightarrow> Inr (Some d)))"

definition JobDescriptionInfo_init :: "world \<Rightarrow> (string \<times> json) list \<Rightarrow> exn + JobDescriptionInfo" where
  "JobDescriptionInfo_init w kvs =
     (case map_of kvs ''job_title'' of
        None \<Rightarrow> raise w ValidationError
      | Some t \<Rightarrow>
     bindE (str_validator w t) (\<lambda>f1.
     bindE (opt_str_field w kvs ''company'') (\<lambda>f2.
     bindE (opt_str_field w kvs ''location'') (\<lambda>f3.
     bindE (opt_str_field w kvs ''summary'') (\<lambda>f4.
     bindE (str_list_field w kvs ''responsibilities'') (\<lambda>f5.
     bindE (str_list_field w kvs ''required_skills'') (\<lambda>f6.
     bindE (str_list_field w kvs ''preferred_skills'') (\<lambda>f7.
     bindE (opt_str_field w kvs ''required_experience'') (\<lambda>f8.
     bindE (opt_str_field w kvs ''required_education'') (\<lambda>f9.
     bindE (dict_field w kvs ''misc'') (\<lambda>f10.
       Inr \<lparr>job_title = f1, company = f2, location = f3, summary = f4,
            responsibilities = f5, required_skills = f6, preferred_skills = f7,
            required_experience = f8, required_education = f9, misc = f10\<rparr>)))))))))))"

subsection \<open>\<^verbatim>\<open>parse_job_description\<close>\<close>

text \<open>
  The rows whose title equals the selected one after \<^verbatim>\<open>strip\<close> and \<^verbatim>\<open>lower\<close>; a missing
  title cell matches nothing.
\<close>

definition matching_rows :: "dataframe \<Rightarrow> string \<Rightarrow> job_row list" where
  "matching_rows df selected =
     filter (\<lambda>r. case Job_Title r of
                    None \<Rightarrow> False
                  | Some t \<Rightarrow> lower (strip t) = lower (strip selected)) (rows df)"

text \<open>
  \<^verbatim>\<open>job_row['Company'].iloc[0] if 'Company' in df_jobs.columns and pd.notna(...) else None\<close>,
  for the column \<open>col\<close> with the cell \<open>cell\<close>.
\<close>

definition optional_cell :: "dataframe \<Rightarrow> string \<Rightarrow> string option \<Rightarrow> string option" where
  "optional_cell df col cell = (if col \<in> set (columns df) \<and> cell \<noteq> None then cell else None)"

text \<open>
  The overrides on the decoded reply: the selected title always, the catalog's company and
  location where truthy and the reply has no truthy value under the key.
\<close>

definition overlay :: "string \<Rightarrow> string option \<Rightarrow> (string \<times> json) list \<Rightarrow> (string \<times> json) list" where
  "overlay k cell parsed_data =
     (case cell of
        None \<Rightarrow> parsed_data
      | Some c \<Rightarrow>
          if c \<noteq> [] \<and> (map_of parsed_data k = None \<or> \<not> truthy_opt (map_of parsed_data k))
          then AList.update k (JStr c) parsed_data
          else parsed_data)"

definition supplement ::
  "string \<Rightarrow> string option \<Rightarrow> string option \<Rightarrow> (string \<times> json) list \<Rightarrow> (string \<times> json) list" where
  "supplement selected company_cell location_cell parsed_data =
     overlay ''location'' location_cell
       (overlay ''company'' company_cell
         (AList.update ''job_title'' (JStr selected) parsed_data))"

text \<open>The \<^verbatim>\<open>try\<close> body of \<^verbatim>\<open>parse_job_description\<close>.\<close>

definition lookup_and_parse ::
  "world \<Rightarrow> string option \<Rightarrow> dataframe option \<Rightarrow> exn + JobDescriptionInfo" where
  "lookup_and_parse w selected_opt df_opt =
     (case df_opt of
        None \<Rightarrow> raise w TypeError
      | Some df_jobs \<Rightarrow>
     if ''Job Title'' \<notin> set (columns df_jobs) then raise w KeyError
     else (case selected_opt of
        None \<Rightarrow> raise w AttributeError
      | Some selected \<Rightarrow>
     (case matching_rows df_jobs selected of
        [] \<Rightarrow> Inl (Exn ValueError (''Job title '' @ quoted selected @ '' not found in the provided CSV.''))
      | r # rs \<Rightarrow>
     if ''Job Description'' \<notin> set (columns df_jobs) then raise w KeyError
     else
       let company_cell = optional_cell df_jobs ''Company'' (Company r);
           location_cell = optional_cell df_jobs ''Location'' (Location r)
       in (case Job_Description r of
         None \<Rightarrow> raise w AttributeError
       | Some jd_text \<Rightarrow>
     if jd_text = [] \<or> isspace jd_text
     then Inl (Exn ValueError (''Job description text is empty for '' @ quoted selected @ ''.''))
     else
       let json_output_str = call_deepseek_for_jd_parsing w jd_text selected
       in if json_output_str = [] \<or> json_output_str = ''{}''
          then Inl (Exn ValueError ''LLM failed to parse job description, returned empty data.'')
          else bindE (loads w (JStr json_output_str)) (\<lambda>parsed.
                 case parsed of
                   JObj parsed_data \<Rightarrow>
                     JobDescriptionInfo_init w (supplement selected company_cell location_cell parsed_data)
                 | _ \<Rightarrow> raise w TypeError)))))"

definition parse_job_description ::
  "world \<Rightarrow> string option \<Rightarrow> dataframe option \<Rightarrow> exn + JobDescriptionInfo" where
  "parse_job_description w selected_opt df_opt =
     (case lookup_and_parse w selected_opt df_opt of
        Inr jd_info \<Rightarrow> Inr jd_info
      | Inl e \<Rightarrow>
          Inl (Exn RuntimeError
                 (''Failed to parse job description '' @ quoted (py_str selected_opt) @ '': '' @ str_of_exn e)))"

section \<open>Resumes (resume_parser.py)\<close>

text \<open>
  Text extraction, the language-model call and the validation of its reply are the world's
  \<open>extract_resume\<close>; \<^verbatim>\<open>parse_resume_file\<close> re-raises whatever fails there as a RuntimeError.
  A missing file content is an empty stream, a missing file name fails at \<^verbatim>\<open>filename.lower()\<close>.
\<close>

definition parse_resume_file :: "world \<Rightarrow> string option \<Rightarrow> string option \<Rightarrow> exn + ResumeInfo" where
  "parse_resume_file w content_opt filename_opt =
     (case (case filename_opt of
              None \<Rightarrow> raise w AttributeError
            | Some filename \<Rightarrow>
                extract_resume w (case content_opt of None \<Rightarrow> [] | Some c \<Rightarrow> c) filename)
      of Inr resume_info \<Rightarrow> Inr resume_info
       | Inl e \<Rightarrow>
           Inl (Exn RuntimeError
                  (''Failed to parse resume '' @ quoted (py_str filename_opt) @ '': '' @ str_of_exn e)))"

section \<open>Persistence (database.py)\<close>

text \<open>
  \<^verbatim>\<open>save_match_results\<close>: the insert is the world's; a \<^verbatim>\<open>sqlite3.Error\<close> is answered with
  False, any other exception leaves the function.
\<close>

definition save_match_results ::
  "world \<Rightarrow> ResumeInfo \<Rightarrow> JobDescriptionInfo \<Rightarrow> pyfloat \<Rightarrow> json option \<Rightarrow> exn + bool" where
  "save_match_results w resume_info jd_info score fb =
     (case db_insert w resume_info jd_info score fb of
        Inr u \<Rightarrow> Inr True
      | Inl e \<Rightarrow> if exc_class_of e = SqliteError then Inr False else Inl e)"

section \<open>Notification (email_sender.py)\<close>

text \<open>The subject and the body chosen by \<^verbatim>\<open>is_qualified = match_score >= 65.0\<close>.\<close>

definition compose_email :: "string option \<Rightarrow> string \<Rightarrow> pyfloat \<Rightarrow> json \<Rightarrow> string \<times> body" where
  "compose_email name job score fb =
     (let is_qualified = f_ge score (Fin 65);
          greeting = (if truthy_str name then py_str name else ''Candidate'')
      in if is_qualified
         then (''Congratulations regarding your application for '' @ job @ ''!'',
               Congratulatory greeting job score fb)
         else (''Update regarding your application for '' @ job,
               Rejection greeting job score fb))"

text \<open>
  \<^verbatim>\<open>send_application_email\<close>. The three header assignments on the \<^verbatim>\<open>EmailMessage\<close> come
  before the \<^verbatim>\<open>try\<close>, so an exception of the library there leaves the function; inside the
  \<^verbatim>\<open>try\<close> every exception is answered with False.
\<close>

definition send_application_email ::
  "world \<Rightarrow> string option \<Rightarrow> string option \<Rightarrow> string option \<Rightarrow> pyfloat \<Rightarrow> json \<Rightarrow> exn + bool" where
  "send_application_email w to_email name job score fb =
     (if \<not> truthy_str (EMAIL_SENDER w) \<or> \<not> truthy_str (EMAIL_PASSWORD w) then Inr False
      else if \<not> truthy_str to_email then Inr False
      else
        let composed = compose_email name (py_str job) score fb;
            msg = \<lparr>Subject = fst composed, From = py_str (EMAIL_SENDER w),
                   To = py_str to_email, content = snd composed\<rparr>
        in bindE (set_header w ''Subject'' (Subject msg)) (\<lambda>u1.
           bindE (set_header w ''From'' (From msg)) (\<lambda>u2.
           bindE (set_header w ''To'' (To msg)) (\<lambda>u3.
             case smtp_send w msg of Inr u \<Rightarrow> Inr True | Inl e \<Rightarrow> Inr False))))"

section \<open>The stages (main.py)\<close>

definition initialization_error :: "AppState \<Rightarrow> string \<Rightarrow> AppState" where
  "initialization_error s m = s\<lparr>error_message := Some (''Initialization Error: '' @ m)\<rparr>"

definition load_and_validate_input :: "world \<Rightarrow> AppState \<Rightarrow> AppState" where
  "load_and_validate_input w s =
     (if \<not> csv_exists w
      then initialization_error s (''Job descriptions file not found: '' @ JOB_DATA_CSV w)
      else (case read_csv w of
        Inl e \<Rightarrow> initialization_error s (str_of_exn e)
      | Inr df \<Rightarrow>
          if ''Job Title'' \<notin> set (columns df) \<or> ''Job Description'' \<notin> set (columns df)
          then initialization_error s ''CSV must contain 'Job Title' and 'Job Description' columns.''
          else
            let s1 = s\<lparr>job_descriptions_df := Some df\<rparr>
            in if \<not> truthy_str (uploaded_file_content s1) \<or> \<not> truthy_str (uploaded_filename s1)
               then initialization_error s1 ''Resume file not provided.''
               else if \<not> truthy_str (selected_job_title s1)
               then initialization_error s1 ''Job title not selected.''
               else s1\<lparr>error_message := None\<rparr>))"

definition process_resume :: "world \<Rightarrow> AppState \<Rightarrow> AppState" where
  "process_resume w s =
     (if truthy_str (error_message s) then s
      else (case parse_resume_file w (uploaded_file_content s) (uploaded_filename s) of
        Inr resume_info \<Rightarrow> s\<lparr>parsed_resume := Some resume_info, error_message := None\<rparr>
      | Inl e \<Rightarrow> s\<lparr>error_message := Some (''Resume Parsing Failed: '' @ str_of_exn e),
                     parsed_resume := None\<rparr>))"

definition process_job_description :: "world \<Rightarrow> AppState \<Rightarrow> AppState" where
  "process_job_description w s =
     (if truthy_str (error_message s) then s
      else (case parse_job_description w (selected_job_title s) (job_descriptions_df s) of
        Inr jd_info \<Rightarrow> s\<lparr>parsed_jd := Some jd_info, error_message := None\<rparr>
      | Inl e \<Rightarrow> s\<lparr>error_message := Some (''Job Description Parsing Failed: '' @ str_of_exn e),
                     parsed_jd := None\<rparr>))"

definition missing_inputs :: "AppState \<Rightarrow> AppState" where
  "missing_inputs s =
     (if \<not> truthy_str (error_message s)
      then s\<lparr>error_message := Some ''Cannot perform matching due to missing parsed resume or JD.''\<rparr>
      else s)"

definition perform_matching :: "world \<Rightarrow> AppState \<Rightarrow> AppState" where
  "perform_matching w s =
     (if truthy_str (error_message s) then missing_inputs s
      else (case parsed_resume s of
        None \<Rightarrow> missing_inputs s
      | Some resume \<Rightarrow>
     (case parsed_jd s of
        None \<Rightarrow> missing_inputs s
      | Some jd \<Rightarrow>
     (case calculate_match_and_feedback w resume jd of
        Inr (score, feedback_text) \<Rightarrow>
          s\<lparr>match_score := Some score, feedback := optional feedback_text, error_message := None\<rparr>
      | Inl e \<Rightarrow>
          s\<lparr>error_message := Some (''Matching Failed: '' @ str_of_exn e),
            match_score := None, feedback := None\<rparr>))))"

text \<open>The call in the \<^verbatim>\<open>try\<close> of \<^verbatim>\<open>save_to_database\<close>; a missing record fails inside it.\<close>

definition save_call :: "world \<Rightarrow> AppState \<Rightarrow> exn + bool" where
  "save_call w s =
     (case parsed_resume s of
        None \<Rightarrow> raise w AttributeError
      | Some resume_info \<Rightarrow>
     (case parsed_jd s of
        None \<Rightarrow> raise w AttributeError
      | Some jd_info \<Rightarrow>
     (case match_score s of
        None \<Rightarrow> raise w TypeError
      | Some score \<Rightarrow> save_match_results w resume_info jd_info score (feedback s))))"

definition save_to_database :: "world \<Rightarrow> AppState \<Rightarrow> AppState" where
  "save_to_database w s =
     (if truthy_str (error_message s) \<or> match_score s = None
      then s\<lparr>db_save_status := False\<rparr>
      else (case save_call w s of
        Inr success \<Rightarrow>
          let s1 = s\<lparr>db_save_status := success\<rparr>
          in if \<not> success
             then (if \<not> truthy_str (error_message s1)
                   then s1\<lparr>error_message := Some ''Failed to save results to the database.''\<rparr>
                   else s1)
             else s1\<lparr>error_message := None\<rparr>
      | Inl e \<Rightarrow>
          s\<lparr>error_message := Some (''Database Save Failed: '' @ str_of_exn e),
            db_save_status := False\<rparr>))"

text \<open>The call in the \<^verbatim>\<open>try\<close> of \<^verbatim>\<open>send_candidate_email\<close>.\<close>

definition email_call :: "world \<Rightarrow> AppState \<Rightarrow> exn + bool" where
  "email_call w s =
     (case parsed_resume s of
        None \<Rightarrow> raise w AttributeError
      | Some resume_info \<Rightarrow>
     (case match_score s of
        None \<Rightarrow> raise w TypeError
      | Some score \<Rightarrow>
     (case feedback s of
        None \<Rightarrow> raise w TypeError
      | Some fb \<Rightarrow>
          send_application_email w (email resume_info) (candidate_name resume_info)
            (selected_job_title s) score fb)))"

definition send_candidate_email :: "world \<Rightarrow> AppState \<Rightarrow> AppState" where
  "send_candidate_email w s =
     (if match_score s = None \<or> parsed_resume s = None \<or> \<not> truthy_opt (feedback s)
      then
        let s1 = s\<lparr>email_sent_status := False\<rparr>
        in if \<not> truthy_str (error_message s1)
           then s1\<lparr>error_message := Some ''Email not sent due to missing information.''\<rparr>
           else s1
      else (case email_call w s of
        Inr success \<Rightarrow>
          let s1 = s\<lparr>email_sent_status := success\<rparr>
          in if \<not> success \<and> \<not> truthy_str (error_message s1)
             then s1\<lparr>error_message := Some ''Failed to send email (check logs and email config).''\<rparr>
             else s1
      | Inl e \<Rightarrow>
          s\<lparr>error_message := Some (''Email Sending Failed: '' @ str_of_exn e),
            email_sent_status := False\<rparr>))"

section \<open>The graph (build_graph)\<close>

datatype node = load_validate | parse_resume | parse_jd | match | save_db | send_email | END

fun node_function :: "world \<Rightarrow> node \<Rightarrow> AppState \<Rightarrow> AppState" where
  "node_function w load_validate = load_and_validate_input w"
| "node_function w parse_resume = process_resume w"
| "node_function w parse_jd = process_job_description w"
| "node_function w match = perform_matching w"
| "node_function w save_db = save_to_database w"
| "node_function w send_email = send_candidate_email w"
| "node_function w END = (\<lambda>s. s)"

text \<open>The edges: four conditional ones on the error message, two plain ones.\<close>

fun edge :: "node \<Rightarrow> AppState \<Rightarrow> node" where
  "edge load_validate s = (if \<not> truthy_str (error_message s) then parse_resume else END)"
| "edge parse_resume s = (if \<not> truthy_str (error_message s) then parse_jd else END)"
| "edge parse_jd s = (if \<not> truthy_str (error_message s) then match else END)"
| "edge match s = (if \<not> truthy_str (error_message s) then save_db else END)"
| "edge save_db s = send_email"
| "edge send_email s = END"
| "edge END s = END"

fun rank :: "node \<Rightarrow> nat" where
  "rank load_validate = 0"
| "rank parse_resume = 1"
| "rank parse_jd = 2"
| "rank match = 3"
| "rank save_db = 4"
| "rank send_email = 5"
| "rank END = 6"

text \<open>
  Running the compiled graph from a node: the node's function, then the edge taken on the
  state it returns. The result is the list of the nodes run and the final state.
\<close>

function invoke_from :: "world \<Rightarrow> node \<Rightarrow> AppState \<Rightarrow> node list \<times> AppState" where
  "invoke_from w n s =
     (if n = END then ([], s)
      else
        let s1 = node_function w n s;
            r = invoke_from w (edge n s1) s1
        in (n # fst r, snd r))"
  by pat_completeness auto
termination
proof (relation "measure (\<lambda>(w, n, s). 6 - rank n)")
  show "wf (measure (\<lambda>(w, n, s). 6 - rank n))"
    by simp
next
  fix w :: world and n :: node and s s1 :: AppState
  assume "n \<noteq> END"
  then show "((w, edge n s1, s1), (w, n, s)) \<in> measure (\<lambda>(w, n, s). 6 - rank n)"
    by (cases n) simp_all
qed

definition invoke :: "world \<Rightarrow> AppState \<Rightarrow> node list \<times> AppState" where
  "invoke w s = invoke_from w load_validate s"

text \<open>
  The state in which a run from node \<open>n\<close> enters the node \<open>stop\<close>, if it gets there.
\<close>

function invoke_until :: "world \<Rightarrow> node \<Rightarrow> node \<Rightarrow> AppState \<Rightarrow> AppState option" where
  "invoke_until w stop n s =
     (if n = stop then Some s
      else if n = END then None
      else
        let s1 = node_function w n s
        in invoke_until w stop (edge n s1) s1)"
  by pat_completeness auto
termination
proof (relation "measure (\<lambda>(w, stop, n, s). 6 - rank n)")
  show "wf (measure (\<lambda>(w, stop, n, s). 6 - rank n))"
    by simp
next
  fix w :: world and stop n :: node and s s1 :: AppState
  assume "n \<noteq> stop" and "n \<noteq> END"
  then show "((w, stop, edge n s1, s1), (w, stop, n, s))
               \<in> measure (\<lambda>(w, stop, n, s). 6 - rank n)"
    by (cases n) simp_all
qed

text \<open>The state the user interface starts a run with.\<close>

definition initial_state :: "string \<Rightarrow> string \<Rightarrow> string \<Rightarrow> AppState" where
  "initial_state file_bytes filename selected_job =
     \<lparr>uploaded_file_content = Some file_bytes,
      uploaded_filename = Some filename,
      selected_job_title = Some selected_job,
      job_descriptions_df = None,
      parsed_resume = None,
      parsed_jd = None,
      match_score = None,
      feedback = None,
      db_save_status = False,
      email_sent_status = False,
      error_message = None\<rparr>"

section \<open>Properties\<close>

subsection \<open>Notions used in the statements\<close>

text \<open>A score that is a finite number between 0 and 100.\<close>

definition in_range :: "pyfloat \<Rightarrow> bool" where
  "in_range x = (case x of Fin r \<Rightarrow> 0 \<le> r \<and> r \<le> 100 | _ \<Rightarrow> False)"

subsection \<open>A sample world\<close>

text \<open>
  One catalog with one job, one candidate, and a world in which every service answers:
  the language model's replies are the JSON texts below, \<^verbatim>\<open>json.loads\<close> is given on
  exactly the texts that occur, and the mail library refuses a header value with a line feed
  before its last character (such a value has more than one line). The failure scenarios
  are record updates of this world.
\<close>

definition sample_catalog :: dataframe where
  "sample_catalog =
     \<lparr>columns = [''Job Title'', ''Job Description'', ''Company'', ''Location''],
      rows = [\<lparr>Job_Title = Some ''data engineer'', Job_Description = Some ''build data pipelines'',
               Company = Some ''acme'', Location = None\<rparr>]\<rparr>"

definition sample_resume :: ResumeInfo where
  "sample_resume =
     \<lparr>candidate_name = Some ''ada'', email = Some ''ada@example.org'', phone = None,
      resume_summary = None, skills = [''sql''], experience = [], education = [],
      resume_misc = Some []\<rparr>"

definition sample_jd :: JobDescriptionInfo where
  "sample_jd =
     \<lparr>job_title = ''data engineer'', company = Some ''acme'', location = None,
      summary = Some ''pipelines'', responsibilities = [], required_skills = [],
      preferred_skills = [], required_experience = None, required_education = None,
      misc = Some []\<rparr>"

definition chat_reply :: "string \<Rightarrow> json" where
  "chat_reply c = JObj [(''choices'', JArr [JObj [(''message'', JObj [(''content'', JStr c)])]])]"

definition sample_loads :: "string \<Rightarrow> json option" where
  \<open>sample_loads s =
     (if s = ''{"summary": "pipelines"}''
      then Some (JObj [(''summary'', JStr ''pipelines'')])
      else if s = ''{"summary": "pipelines", "company": "globex"}''
      then Some (JObj [(''summary'', JStr ''pipelines''), (''company'', JStr ''globex'')])
      else if s = ''{"match_score": 70, "feedback": "good"}''
      then Some (JObj [(''match_score'', JInt 70), (''feedback'', JStr ''good'')])
      else if s = ''{"match_score": 70, "feedback": null}''
      then Some (JObj [(''match_score'', JInt 70), (''feedback'', JNull)])
      else if s = ''{"match_score": 101, "feedback": "good"}''
      then Some (JObj [(''match_score'', JInt 101), (''feedback'', JStr ''good'')])
      else if s = ''{"match_score": -5, "feedback": "poor"}''
      then Some (JObj [(''match_score'', JInt (- 5)), (''feedback'', JStr ''poor'')])
      else if s = ''{"match_score": 80, "feedback": "fine"}''
      then Some (JObj [(''match_score'', JInt 80), (''feedback'', JStr ''fine'')])
      else if s = ''{"feedback": "great"}''
      then Some (JObj [(''feedback'', JStr ''great'')])
      else if s = ''{"match_score": 1'' @ replicate 309 (CHR ''0'') @ '', "feedback": "good"}''
      then Some (JObj [(''match_score'', JInt (10 ^ 309)), (''feedback'', JStr ''good'')])
      else None)\<close>

definition sample_world :: world where
  \<open>sample_world =
     \<lparr>JOB_DATA_CSV = ''job_description.csv'',
      csv_exists = True,
      read_csv = Inr sample_catalog,
      extract_resume = (\<lambda>file_bytes filename. Inr sample_resume),
      DEEPSEEK_API_KEY = Some ''key'',
      post_jd = (\<lambda>text title. Response (chat_reply ''{"summary": "pipelines"}'')),
      post_match = (\<lambda>resume_js jd_js.
        Response (chat_reply ''{"match_score": 70, "feedback": "good"}'')),
      json_loads = sample_loads,
      float_of_str = (\<lambda>s. None),
      resume_json = (\<lambda>r. Inr ''resume''),
      jd_json = (\<lambda>j. Inr ''jd''),
      coerce_str = (\<lambda>v. None),
      coerce_dict = (\<lambda>v. None),
      db_insert = (\<lambda>r j x f. Inr ()),
      EMAIL_SENDER = Some ''hr@example.org'',
      EMAIL_PASSWORD = Some ''secret'',
      set_header = (\<lambda>name v.
        if CHR 0x0A \<in> set (butlast v)
        then Inl (Exn ValueError
                   ''Header values may not contain linefeed or carriage return characters'')
        else Inr ()),
      smtp_send = (\<lambda>m. Inr ()),
      lib_text = (\<lambda>c. ''error'')\<rparr>\<close>

text \<open>The scoring request times out.\<close>

definition timeout_world :: world where
  "timeout_world =
     sample_world\<lparr>post_match := (\<lambda>resume_js jd_js. Raises (Exn RequestTimeout ''timed out''))\<rparr>"




text \<open>A run's start, and its state after the two extraction stages succeeded.\<close>

definition sample_start :: AppState where
  "sample_start = initial_state ''resume text'' ''cv.txt'' ''data engineer''"

definition ready_state :: AppState where
  "ready_state =
     sample_start\<lparr>job_descriptions_df := Some sample_catalog,
                  parsed_resume := Some sample_resume,
                  parsed_jd := Some sample_jd\<rparr>"

text \<open>Which of the two bodies a message has.\<close>

fun congratulatory :: "body \<Rightarrow> bool" where
  "congratulatory (Congratulatory greeting job score fb) = True"
| "congratulatory (Rejection greeting job score fb) = False"

text \<open>A scored run whose resume has no e-mail address, and one with no feedback.\<close>

definition scored_state :: AppState where
  "scored_state = ready_state\<lparr>match_score := Some (Fin 70), feedback := Some (JStr ''good'')\<rparr>"

definition no_address_state :: AppState where
  "no_address_state = scored_state\<lparr>parsed_resume := Some (sample_resume\<lparr>email := None\<rparr>)\<rparr>"

definition no_feedback_state :: AppState where
  "no_feedback_state =
     scored_state\<lparr>feedback := None, error_message := Some ''Failed to save results to the database.''\<rparr>"

text \<open>The stage that follows a stage in the fixed order.\<close>

fun next_stage :: "node \<Rightarrow> node" where
  "next_stage load_validate = parse_resume"
| "next_stage parse_resume = parse_jd"
| "next_stage parse_jd = match"
| "next_stage match = save_db"
| "next_stage save_db = send_email"
| "next_stage send_email = END"
| "next_stage END = END"

text \<open>The store answers every insert with an \<^verbatim>\<open>sqlite3.Error\<close>.\<close>

definition db_down_world :: world where
  "db_down_world =
     sample_world\<lparr>db_insert := (\<lambda>r j x f. Inl (Exn SqliteError ''database is locked''))\<rparr>"

text \<open>The run of the sample world for a title that the catalog does not have.\<close>

definition absent_start :: AppState where
  "absent_start = initial_state ''resume text'' ''cv.txt'' ''astronaut''"

definition absent_ready :: AppState where
  "absent_ready =
     absent_start\<lparr>job_descriptions_df := Some sample_catalog,
                  parsed_resume := Some sample_resume\<rparr>"

text \<open>
  The state before the job description is extracted, and a world whose model names a company
  of its own.
\<close>

definition jd_ready :: AppState where
  "jd_ready =
     sample_start\<lparr>job_descriptions_df := Some sample_catalog,
                  parsed_resume := Some sample_resume\<rparr>"

definition globex_world :: world where
  \<open>globex_world =
     sample_world\<lparr>post_jd := (\<lambda>text title.
       Response (chat_reply ''{"summary": "pipelines", "company": "globex"}''))\<rparr>\<close>

text \<open>The scoring reply has a score and \<^verbatim>\<open>null\<close> for the feedback.\<close>

definition null_feedback_world :: world where
  \<open>null_feedback_world =
     sample_world\<lparr>post_match := (\<lambda>resume_js jd_js.
       Response (chat_reply ''{"match_score": 70, "feedback": null}''))\<rparr>\<close>

text \<open>
  The catalog's job title has a line feed in it, and the store answers every insert with an
  \<^verbatim>\<open>sqlite3.Error\<close>.
\<close>

definition two_line_title :: string where
  "two_line_title = ''data'' @ [CHR 0x0A] @ ''engineer''"

definition two_line_catalog :: dataframe where
  "two_line_catalog =
     \<lparr>columns = [''Job Title'', ''Job Description'', ''Company'', ''Location''],
      rows = [\<lparr>Job_Title = Some two_line_title, Job_Description = Some ''build data pipelines'',
               Company = Some ''acme'', Location = None\<rparr>]\<rparr>"

definition two_line_world :: world where
  "two_line_world =
     sample_world\<lparr>read_csv := Inr two_line_catalog,
                  db_insert := (\<lambda>r j x f. Inl (Exn SqliteError ''database is locked''))\<rparr>"

definition two_line_start :: AppState where
  "two_line_start = initial_state ''resume text'' ''cv.txt'' two_line_title"




text \<open>The store refuses the insert and the mail server refuses the message.\<close>

definition all_down_world :: world where
  "all_down_world =
     db_down_world\<lparr>smtp_send := (\<lambda>m. Inl (Exn OtherError ''connection refused''))\<rparr>"


subsection \<open>The score is clamped\<close>

lemma clamp_score_Fin: "clamp_score (Fin y) = Fin (max 0 (min 100 y))"
  by (simp add: clamp_score_def f_le_def py_max_def py_min_def max_def min_def)

lemma clamp_score_special:
  "clamp_score NaN = Fin 100" "clamp_score PInf = Fin 100" "clamp_score NInf = Fin 0"
  by (simp_all add: clamp_score_def f_le_def py_max_def py_min_def)

lemma clamp_score_in_range: "in_range (clamp_score x)"
  by (cases x) (simp_all add: clamp_score_Fin clamp_score_special in_range_def)

lemma bindE_Inr: "bindE m f = Inr y \<Longrightarrow> \<exists>x. m = Inr x \<and> f x = Inr y"
  by (cases m) (simp_all add: bindE_def)

lemma read_result_in_range:
  assumes "read_result w rd dflt = Inr (score, fb)"
  shows "in_range score"
proof -
  from assms obtain x :: pyfloat where "score = clamp_score x"
    unfolding read_result_def by (auto dest!: bindE_Inr)
  then show ?thesis by (simp add: clamp_score_in_range)
qed

lemma default_in_range: "in_range (fst default_response)" "in_range (fst error_response)"
  by (simp_all add: default_response_def error_response_def in_range_def)

lemma fenced_result_in_range: "in_range (fst (fenced_result w s))"
proof (cases "fenced_result w s = default_response")
  case True
  then show ?thesis by (simp add: default_in_range)
next
  case False
  then obtain rd where
    "read_result w rd ''Feedback could not be generated (extracted).'' = Inr (fenced_result w s)"
    unfolding fenced_result_def
    by (auto split: if_splits sum.splits dest!: bindE_Inr)
  then show ?thesis
    using read_result_in_range [of w rd _ "fst (fenced_result w s)" "snd (fenced_result w s)"]
    by simp
qed

lemma parse_content_in_range: "in_range (fst (parse_content w mc))"
  unfolding parse_content_def
  by (auto split: json.splits option.splits sum.splits
      simp: default_in_range fenced_result_in_range dest: read_result_in_range)

lemma matching_request_in_range:
  assumes "matching_request w rj jj = Inr r"
  shows "in_range (fst r)"
proof (cases "post_match w rj jj")
  case (Raises e)
  with assms show ?thesis by (simp add: matching_request_def)
next
  case (Response d)
  with assms obtain ok where ok: "choices_present w d = Inr ok"
    and r: "(if ok then bindE (message_content w d) (\<lambda>mc. Inr (parse_content w mc))
             else Inr default_response) = Inr r"
    by (auto simp: matching_request_def dest!: bindE_Inr)
  show ?thesis
  proof (cases ok)
    case True
    with r obtain mc where "r = parse_content w mc"
      by (auto dest!: bindE_Inr)
    then show ?thesis by (simp add: parse_content_in_range)
  next
    case False
    with r show ?thesis by (auto simp: default_in_range)
  qed
qed

lemma call_deepseek_in_range: "in_range (fst (call_deepseek_for_matching w rj jj))"
  unfolding call_deepseek_for_matching_def
  by (auto split: sum.splits simp: default_in_range dest: matching_request_in_range)

lemma calculate_cases:
  "calculate_match_and_feedback w resume_info jd_info = Inr error_response \<or>
   (\<exists>rj jj. resume_json w resume_info = Inr rj \<and> jd_json w jd_info = Inr jj \<and>
      calculate_match_and_feedback w resume_info jd_info =
        Inr (call_deepseek_for_matching w rj jj))"
  unfolding calculate_match_and_feedback_def
  by (cases "resume_json w resume_info"; cases "jd_json w jd_info") (simp_all add: bindE_def)

lemma calculate_returns:
  "\<exists>r. calculate_match_and_feedback w resume_info jd_info = Inr r \<and> in_range (fst r)"
  using calculate_cases [of w resume_info jd_info]
  by (metis default_in_range(2) call_deepseek_in_range)


subsection \<open>Failures of the scoring call\<close>














lemma chat_reply_choices: "choices_present w (chat_reply c) = Inr True"
  by (simp add: choices_present_def chat_reply_def has_key_def subscript_def py_len_def bindE_def)

lemma chat_reply_content: "message_content w (chat_reply c) = Inr (JStr c)"
  by (simp add: message_content_def chat_reply_def subscript_def first_item_def py_get_def
      bindE_def)









subsection \<open>The Score stage\<close>




lemma perform_matching_runs:
  assumes "\<not> truthy_str (error_message s)"
    and "parsed_resume s = Some r" and "parsed_jd s = Some j"
    and "calculate_match_and_feedback w r j = Inr (score, fb)"
  shows "perform_matching w s =
           s\<lparr>match_score := Some score, feedback := optional fb, error_message := None\<rparr>"
  using assms by (simp add: perform_matching_def)








subsection \<open>The tone of the notification\<close>

lemma f_ge_Fin: "f_ge (Fin y) (Fin t) = (t \<le> y)"
  by (auto simp: f_ge_def f_le_def)

lemma compose_email_body:
  "snd (compose_email name job score fb) =
     (if f_ge score (Fin 65)
      then Congratulatory (if truthy_str name then py_str name else ''Candidate'') job score fb
      else Rejection (if truthy_str name then py_str name else ''Candidate'') job score fb)"
  by (simp add: compose_email_def Let_def)

lemma compose_email_subject:
  "fst (compose_email name job score fb) =
     (if f_ge score (Fin 65)
      then ''Congratulations regarding your application for '' @ job @ ''!''
      else ''Update regarding your application for '' @ job)"
  by (simp add: compose_email_def Let_def)

lemma sent_message:
  assumes "send_application_email w to_email name job score fb = Inr True"
  shows "\<exists>m. smtp_send w m = Inr () \<and> To m = py_str to_email
           \<and> Subject m = fst (compose_email name (py_str job) score fb)
           \<and> content m = snd (compose_email name (py_str job) score fb)"
proof -
  let ?m = "\<lparr>Subject = fst (compose_email name (py_str job) score fb),
             From = py_str (EMAIL_SENDER w), To = py_str to_email,
             content = snd (compose_email name (py_str job) score fb)\<rparr>"
  from assms have "smtp_send w ?m = Inr ()"
    by (auto simp: send_application_email_def Let_def bindE_def
        split: if_splits sum.splits)
  then show ?thesis
    by (intro exI [of _ ?m]) simp
qed

text \<open>
  C5: the body is the congratulatory one exactly when \<^verbatim>\<open>match_score >= 65.0\<close> holds (for a
  finite score \<open>y\<close>: when \<open>65 \<le> y\<close>), and so is the subject; 65.0 gives the congratulatory
  body and 64.99 the rejection; a message that was sent carries the body so chosen.
\<close>

theorem tone_threshold:
  "congratulatory (snd (compose_email name job score fb)) = f_ge score (Fin 65)
   \<and> f_ge (Fin y) (Fin 65) = (65 \<le> y)
   \<and> (f_lt score (Fin 65) \<longrightarrow> \<not> congratulatory (snd (compose_email name job score fb)))
   \<and> congratulatory (snd (compose_email name job (Fin 65) fb))
   \<and> \<not> congratulatory (snd (compose_email name job (Fin (6499 / 100)) fb))
   \<and> fst (compose_email name job score fb) =
       (if f_ge score (Fin 65)
        then ''Congratulations regarding your application for '' @ job @ ''!''
        else ''Update regarding your application for '' @ job)
   \<and> (send_application_email w to_email name (Some job) score fb = Inr True \<longrightarrow>
        (\<exists>m. smtp_send w m = Inr ()
           \<and> content m = snd (compose_email name job score fb)
           \<and> congratulatory (content m) = f_ge score (Fin 65)))"
proof -
  have body: "congratulatory (snd (compose_email name' job' score' fb')) = f_ge score' (Fin 65)"
    for name' job' score' fb'
    by (simp add: compose_email_body)
  have below: "f_lt score (Fin 65) \<longrightarrow> \<not> f_ge score (Fin 65)"
    by (cases score) (auto simp: f_ge_def f_le_def)
  have sent: "send_application_email w to_email name (Some job) score fb = Inr True \<longrightarrow>
        (\<exists>m. smtp_send w m = Inr ()
           \<and> content m = snd (compose_email name job score fb)
           \<and> congratulatory (content m) = f_ge score (Fin 65))"
  proof
    assume "send_application_email w to_email name (Some job) score fb = Inr True"
    from sent_message [OF this] obtain m where
      "smtp_send w m = Inr ()" "content m = snd (compose_email name job score fb)"
      by auto
    then show "\<exists>m. smtp_send w m = Inr ()
           \<and> content m = snd (compose_email name job score fb)
           \<and> congratulatory (content m) = f_ge score (Fin 65)"
      using body by metis
  qed
  from body below sent show ?thesis
    by (simp add: f_ge_Fin compose_email_subject)
qed

theorem tone_threshold_witness:
  "send_application_email sample_world (Some ''ada@example.org'') (Some ''ada'')
     (Some ''data engineer'') (Fin 65) (JStr ''good'') = Inr True
   \<and> (\<exists>m. smtp_send sample_world m = Inr ()
         \<and> content m = Congratulatory ''ada'' ''data engineer'' (Fin 65) (JStr ''good''))
   \<and> snd (compose_email (Some ''ada'') ''data engineer'' (Fin (6499 / 100)) (JStr ''good'')) =
       Rejection ''ada'' ''data engineer'' (Fin (6499 / 100)) (JStr ''good'')"
proof -
  have sent: "send_application_email sample_world (Some ''ada@example.org'') (Some ''ada'')
     (Some ''data engineer'') (Fin 65) (JStr ''good'') = Inr True"
    by (simp add: send_application_email_def sample_world_def Let_def bindE_def
        compose_email_subject f_ge_Fin)
  with tone_threshold [of "Some ''ada''" "''data engineer''" "Fin 65" "JStr ''good''" 65
      sample_world "Some ''ada@example.org''"]
  obtain m where "smtp_send sample_world m = Inr ()"
    "content m = snd (compose_email (Some ''ada'') ''data engineer'' (Fin 65) (JStr ''good''))"
    by blast
  then have "\<exists>m. smtp_send sample_world m = Inr ()
         \<and> content m = Congratulatory ''ada'' ''data engineer'' (Fin 65) (JStr ''good'')"
    by (auto simp: compose_email_body f_ge_Fin)
  with sent show ?thesis
    by (simp add: compose_email_body f_ge_Fin)
qed

subsection \<open>The Notify stage\<close>

lemma send_application_email_refuses:
  assumes "\<not> truthy_str to_email \<or> \<not> truthy_str (EMAIL_SENDER w) \<or> \<not> truthy_str (EMAIL_PASSWORD w)"
  shows "send_application_email w to_email name job score fb = Inr False"
  using assms by (auto simp: send_application_email_def)

lemma send_candidate_email_skips:
  assumes "match_score s = None \<or> parsed_resume s = None \<or> \<not> truthy_opt (feedback s)"
  shows "send_candidate_email w s =
           (if \<not> truthy_str (error_message s)
            then s\<lparr>email_sent_status := False,
                   error_message := Some ''Email not sent due to missing information.''\<rparr>
            else s\<lparr>email_sent_status := False\<rparr>)"
  using assms by (auto simp: send_candidate_email_def Let_def)

lemma send_candidate_email_returns:
  assumes "match_score s = Some x" and "parsed_resume s = Some r" and "truthy_opt (feedback s)"
    and "email_call w s = Inr success"
  shows "send_candidate_email w s =
           (if \<not> success \<and> \<not> truthy_str (error_message s)
            then s\<lparr>email_sent_status := success,
                   error_message := Some ''Failed to send email (check logs and email config).''\<rparr>
            else s\<lparr>email_sent_status := success\<rparr>)"
  using assms by (auto simp: send_candidate_email_def Let_def)

lemma send_candidate_email_raises:
  assumes "match_score s = Some x" and "parsed_resume s = Some r" and "truthy_opt (feedback s)"
    and "email_call w s = Inl e"
  shows "send_candidate_email w s =
           s\<lparr>error_message := Some (''Email Sending Failed: '' @ str_of_exn e),
             email_sent_status := False\<rparr>"
  using assms by (auto simp: send_candidate_email_def)

text \<open>
  C8: when the score, the feedback, the resume record or the record's address is missing,
  the Notify stage leaves \<^verbatim>\<open>email_sent_status\<close> False, keeps an error message that was
  already there and records one of its two explanatory messages otherwise; the collaborator
  returns False, not an exception, without an address or without credentials.
\<close>

theorem notify_requirements:
  assumes "match_score s = None \<or> \<not> truthy_opt (feedback s) \<or> parsed_resume s = None
           \<or> (\<exists>r. parsed_resume s = Some r \<and> \<not> truthy_str (email r))"
  shows "\<not> email_sent_status (send_candidate_email w s)
    \<and> (truthy_str (error_message s) \<longrightarrow>
          error_message (send_candidate_email w s) = error_message s)
    \<and> (\<not> truthy_str (error_message s) \<longrightarrow>
          error_message (send_candidate_email w s) \<in>
            {Some ''Email not sent due to missing information.'',
             Some ''Failed to send email (check logs and email config).''})
    \<and> ((\<not> truthy_str to_email \<or> \<not> truthy_str (EMAIL_SENDER w)
          \<or> \<not> truthy_str (EMAIL_PASSWORD w)) \<longrightarrow>
          send_application_email w to_email name job score fb = Inr False)"
proof (cases "match_score s = None \<or> parsed_resume s = None \<or> \<not> truthy_opt (feedback s)")
  case True
  then show ?thesis
    by (simp add: send_candidate_email_skips send_application_email_refuses)
next
  case False
  with assms obtain r where r: "parsed_resume s = Some r" "\<not> truthy_str (email r)"
    by auto
  from False obtain x fb0 where x: "match_score s = Some x" "feedback s = Some fb0"
    by (cases "feedback s") auto
  from r x have "email_call w s = Inr False"
    by (simp add: email_call_def send_application_email_refuses)
  with x(1) r(1) False have "send_candidate_email w s =
           (if \<not> False \<and> \<not> truthy_str (error_message s)
            then s\<lparr>email_sent_status := False,
                   error_message := Some ''Failed to send email (check logs and email config).''\<rparr>
            else s\<lparr>email_sent_status := False\<rparr>)"
    by (intro send_candidate_email_returns) simp_all
  then show ?thesis
    by (simp add: send_application_email_refuses)
qed

theorem notify_requirements_witness:
  "parsed_resume no_address_state = Some (sample_resume\<lparr>email := None\<rparr>)
   \<and> \<not> email_sent_status (send_candidate_email sample_world no_address_state)
   \<and> error_message (send_candidate_email sample_world no_address_state) \<in>
            {Some ''Email not sent due to missing information.'',
             Some ''Failed to send email (check logs and email config).''}
   \<and> feedback no_feedback_state = None
   \<and> \<not> email_sent_status (send_candidate_email sample_world no_feedback_state)
   \<and> error_message (send_candidate_email sample_world no_feedback_state) =
       Some ''Failed to save results to the database.''"
proof -
  have a: "parsed_resume no_address_state = Some (sample_resume\<lparr>email := None\<rparr>)"
    "\<not> truthy_str (email (sample_resume\<lparr>email := None\<rparr>))"
    "\<not> truthy_str (error_message no_address_state)"
    by (simp_all add: no_address_state_def scored_state_def ready_state_def sample_start_def
        initial_state_def)
  have b: "feedback no_feedback_state = None"
    "error_message no_feedback_state = Some ''Failed to save results to the database.''"
    by (simp_all add: no_feedback_state_def)
  have 1: "\<not> email_sent_status (send_candidate_email sample_world no_address_state)
    \<and> error_message (send_candidate_email sample_world no_address_state) \<in>
            {Some ''Email not sent due to missing information.'',
             Some ''Failed to send email (check logs and email config).''}"
    using notify_requirements [of no_address_state sample_world] a by blast
  have 2: "\<not> email_sent_status (send_candidate_email sample_world no_feedback_state)
    \<and> error_message (send_candidate_email sample_world no_feedback_state) =
       Some ''Failed to save results to the database.''"
    using notify_requirements [of no_feedback_state sample_world] b by simp
  from a(1) b(1) 1 2 show ?thesis by blast
qed

subsection \<open>The Persist stage and the edge to Notify\<close>

lemma invoke_from_save_db:
  "invoke_from w save_db s =
     ([save_db, send_email], send_candidate_email w (save_to_database w s))"
  by simp

lemma invoke_from_match:
  "invoke_from w match s =
     (if truthy_str (error_message (perform_matching w s))
      then ([match], perform_matching w s)
      else ([match, save_db, send_email],
            send_candidate_email w (save_to_database w (perform_matching w s))))"
  by (simp add: Let_def)

lemma invoke_from_parse_jd:
  "invoke_from w parse_jd s =
     (if truthy_str (error_message (process_job_description w s))
      then ([parse_jd], process_job_description w s)
      else (parse_jd # fst (invoke_from w match (process_job_description w s)),
            snd (invoke_from w match (process_job_description w s))))"
  by (simp add: Let_def)

lemma invoke_from_parse_resume:
  "invoke_from w parse_resume s =
     (if truthy_str (error_message (process_resume w s))
      then ([parse_resume], process_resume w s)
      else (parse_resume # fst (invoke_from w parse_jd (process_resume w s)),
            snd (invoke_from w parse_jd (process_resume w s))))"
  by (simp add: Let_def)

lemma invoke_from_load_validate:
  "invoke_from w load_validate s =
     (if truthy_str (error_message (load_and_validate_input w s))
      then ([load_validate], load_and_validate_input w s)
      else (load_validate # fst (invoke_from w parse_resume (load_and_validate_input w s)),
            snd (invoke_from w parse_resume (load_and_validate_input w s))))"
  by (simp add: Let_def)

declare invoke_from.simps [simp del]

lemma trace_shapes:
  "fst (invoke w s) \<in>
     {[load_validate],
      [load_validate, parse_resume],
      [load_validate, parse_resume, parse_jd],
      [load_validate, parse_resume, parse_jd, match],
      [load_validate, parse_resume, parse_jd, match, save_db, send_email]}"
  by (simp add: invoke_def invoke_from_load_validate invoke_from_parse_resume
      invoke_from_parse_jd invoke_from_match)

lemma save_to_database_skips:
  assumes "truthy_str (error_message s) \<or> match_score s = None"
  shows "save_to_database w s = s\<lparr>db_save_status := False\<rparr>"
  using assms by (auto simp: save_to_database_def)

lemma save_to_database_false:
  assumes "\<not> truthy_str (error_message s)" and "match_score s = Some x"
    and "save_call w s = Inr False"
  shows "save_to_database w s =
           s\<lparr>db_save_status := False,
             error_message := Some ''Failed to save results to the database.''\<rparr>"
  using assms by (simp add: save_to_database_def Let_def)

lemma save_to_database_true:
  assumes "\<not> truthy_str (error_message s)" and "match_score s = Some x"
    and "save_call w s = Inr True"
  shows "save_to_database w s = s\<lparr>db_save_status := True, error_message := None\<rparr>"
  using assms by (simp add: save_to_database_def Let_def)

lemma save_to_database_raises:
  assumes "\<not> truthy_str (error_message s)" and "match_score s = Some x"
    and "save_call w s = Inl e"
  shows "save_to_database w s =
           s\<lparr>error_message := Some (''Database Save Failed: '' @ str_of_exn e),
             db_save_status := False\<rparr>"
  using assms by (simp add: save_to_database_def)

lemma send_candidate_email_sent:
  assumes "match_score s = Some x" and "parsed_resume s = Some r" and "truthy_opt (feedback s)"
    and "email_call w s = Inr True"
  shows "send_candidate_email w s = s\<lparr>email_sent_status := True\<rparr>"
  using send_candidate_email_returns [OF assms] by simp

lemma send_candidate_email_flag:
  assumes "match_score t = Some x" and "parsed_resume t = Some r"
    and "feedback t = Some fb" and "truthy fb"
  shows "email_call w t =
           send_application_email w (email r) (candidate_name r) (selected_job_title t) x fb"
    and "email_sent_status (send_candidate_email w t) = (email_call w t = Inr True)"
    and "\<forall>b. email_call w t = Inr b \<longrightarrow>
           error_message (send_candidate_email w t) =
             (if \<not> b \<and> \<not> truthy_str (error_message t)
              then Some ''Failed to send email (check logs and email config).''
              else error_message t)"
proof -
  from assms have fb: "truthy_opt (feedback t)" by simp
  from assms(1-3) show "email_call w t =
      send_application_email w (email r) (candidate_name r) (selected_job_title t) x fb"
    by (simp add: email_call_def)
  show "email_sent_status (send_candidate_email w t) = (email_call w t = Inr True)"
  proof (cases "email_call w t")
    case (Inl e)
    from send_candidate_email_raises [OF assms(1,2) fb this] Inl show ?thesis by simp
  next
    case (Inr b)
    from send_candidate_email_returns [OF assms(1,2) fb this] Inr show ?thesis by simp
  qed
  show "\<forall>b. email_call w t = Inr b \<longrightarrow>
           error_message (send_candidate_email w t) =
             (if \<not> b \<and> \<not> truthy_str (error_message t)
              then Some ''Failed to send email (check logs and email config).''
              else error_message t)"
  proof (intro allI impI)
    fix b
    assume "email_call w t = Inr b"
    from send_candidate_email_returns [OF assms(1,2) fb this]
    show "error_message (send_candidate_email w t) =
             (if \<not> b \<and> \<not> truthy_str (error_message t)
              then Some ''Failed to send email (check logs and email config).''
              else error_message t)"
      by simp
  qed
qed

text \<open>
  C2: the edge from \<^verbatim>\<open>save_db\<close> leads to \<^verbatim>\<open>send_email\<close> whatever the state, so a run that
  reaches Persist runs Notify next, on the state that Persist returns. In a state with score,
  resume record and truthy feedback the Notify stage calls \<^verbatim>\<open>send_application_email\<close> with
  the record's address and name, the selected title, the score and the feedback, and
  \<^verbatim>\<open>email_sent_status\<close> is True exactly when that call returns True. When the save fails
  (the store answers False, or the call raises) in a state with a score and no earlier error,
  \<^verbatim>\<open>db_save_status\<close> is False and the error is the stage's own message; with an earlier
  error the stage only sets the flag. After a failed save the mail call is still made on the
  scored state, \<^verbatim>\<open>email_sent_status\<close> is its result, and when the call returns the error
  of the save is kept.
\<close>

theorem persist_then_notify:
  "edge save_db s = send_email
   \<and> invoke_from w save_db s =
       ([save_db, send_email], send_candidate_email w (save_to_database w s))
   \<and> (save_db \<in> set (fst (invoke w s0)) \<longrightarrow>
        fst (invoke w s0) = [load_validate, parse_resume, parse_jd, match, save_db, send_email])
   \<and> (\<forall>x r fb. match_score t = Some x \<and> parsed_resume t = Some r \<and> feedback t = Some fb
          \<and> truthy fb \<longrightarrow>
          email_call w t =
            send_application_email w (email r) (candidate_name r) (selected_job_title t) x fb
        \<and> email_sent_status (send_candidate_email w t) =
            (send_application_email w (email r) (candidate_name r) (selected_job_title t) x fb
               = Inr True))
   \<and> (truthy_str (error_message s) \<longrightarrow> save_to_database w s = s\<lparr>db_save_status := False\<rparr>)
   \<and> (\<forall>x. \<not> truthy_str (error_message s) \<and> match_score s = Some x
          \<and> save_call w s \<noteq> Inr True \<longrightarrow>
        \<not> db_save_status (save_to_database w s)
        \<and> (error_message (save_to_database w s) = Some ''Failed to save results to the database.''
            \<or> (\<exists>e. save_call w s = Inl e \<and>
                  error_message (save_to_database w s) =
                    Some (''Database Save Failed: '' @ str_of_exn e)))
        \<and> (\<forall>r fb. parsed_resume s = Some r \<and> feedback s = Some fb \<and> truthy fb \<longrightarrow>
              email_call w (save_to_database w s) =
                send_application_email w (email r) (candidate_name r) (selected_job_title s) x fb
            \<and> email_sent_status (snd (invoke_from w save_db s)) =
                (send_application_email w (email r) (candidate_name r) (selected_job_title s) x fb
                   = Inr True)
            \<and> \<not> db_save_status (snd (invoke_from w save_db s))
            \<and> (\<forall>b. send_application_email w (email r) (candidate_name r)
                       (selected_job_title s) x fb = Inr b \<longrightarrow>
                  error_message (snd (invoke_from w save_db s)) =
                    error_message (save_to_database w s))))"
proof (intro conjI impI allI)
  show "edge save_db s = send_email" by simp
  show "invoke_from w save_db s =
       ([save_db, send_email], send_candidate_email w (save_to_database w s))"
    by (rule invoke_from_save_db)
next
  assume "save_db \<in> set (fst (invoke w s0))"
  with trace_shapes [of w s0]
  show "fst (invoke w s0) = [load_validate, parse_resume, parse_jd, match, save_db, send_email]"
    by auto
next
  fix x r fb
  assume a: "match_score t = Some x \<and> parsed_resume t = Some r \<and> feedback t = Some fb \<and> truthy fb"
  then have 1: "match_score t = Some x" and 2: "parsed_resume t = Some r"
    and 3: "feedback t = Some fb" and 4: "truthy fb"
    by simp_all
  from send_candidate_email_flag(1) [OF 1 2 3 4]
  show call: "email_call w t =
      send_application_email w (email r) (candidate_name r) (selected_job_title t) x fb" .
  from send_candidate_email_flag(2) [OF 1 2 3 4, of w] call
  show "email_sent_status (send_candidate_email w t) =
      (send_application_email w (email r) (candidate_name r) (selected_job_title t) x fb
         = Inr True)"
    by simp
next
  assume "truthy_str (error_message s)"
  then show "save_to_database w s = s\<lparr>db_save_status := False\<rparr>"
    by (simp add: save_to_database_skips)
next
  fix x
  assume a: "\<not> truthy_str (error_message s) \<and> match_score s = Some x
      \<and> save_call w s \<noteq> Inr True"
  then have x: "match_score s = Some x" by simp
  from a have failed: "save_call w s = Inr False \<or> (\<exists>e. save_call w s = Inl e)"
    by (cases "save_call w s") auto
  from a x failed show nodb: "\<not> db_save_status (save_to_database w s)"
    by (auto simp: save_to_database_false save_to_database_raises)
  from a x failed
  show "error_message (save_to_database w s) = Some ''Failed to save results to the database.''
      \<or> (\<exists>e. save_call w s = Inl e \<and>
            error_message (save_to_database w s) =
              Some (''Database Save Failed: '' @ str_of_exn e))"
    by (auto simp: save_to_database_false save_to_database_raises)
  from a x failed have err: "truthy_str (error_message (save_to_database w s))"
    by (auto simp: save_to_database_false save_to_database_raises)
  fix r fb
  assume b: "parsed_resume s = Some r \<and> feedback s = Some fb \<and> truthy fb"
  let ?t = "save_to_database w s"
  from a x failed b
  have pre: "match_score ?t = Some x" "parsed_resume ?t = Some r" "feedback ?t = Some fb"
    "selected_job_title ?t = selected_job_title s"
    by (auto simp: save_to_database_false save_to_database_raises)
  from b have fb: "truthy fb" by simp
  from send_candidate_email_flag(1) [OF pre(1-3) fb, of w] pre(4)
  show call: "email_call w ?t =
      send_application_email w (email r) (candidate_name r) (selected_job_title s) x fb"
    by simp
  from send_candidate_email_flag(2) [OF pre(1-3) fb, of w] call
  show "email_sent_status (snd (invoke_from w save_db s)) =
      (send_application_email w (email r) (candidate_name r) (selected_job_title s) x fb
         = Inr True)"
    by (simp add: invoke_from_save_db)
  have frame: "db_save_status (send_candidate_email w ?t) = db_save_status ?t"
    by (simp add: send_candidate_email_def Let_def split: sum.splits)
  with nodb show "\<not> db_save_status (snd (invoke_from w save_db s))"
    by (simp add: invoke_from_save_db)
  fix b'
  assume "send_application_email w (email r) (candidate_name r) (selected_job_title s) x fb
            = Inr b'"
  with call have "email_call w ?t = Inr b'" by simp
  with send_candidate_email_flag(3) [OF pre(1-3) fb, of w] err
  show "error_message (snd (invoke_from w save_db s)) = error_message ?t"
    by (simp add: invoke_from_save_db)
qed

lemma scored_state_fields:
  "\<not> truthy_str (error_message scored_state)" "match_score scored_state = Some (Fin 70)"
  "parsed_resume scored_state = Some sample_resume" "parsed_jd scored_state = Some sample_jd"
  "feedback scored_state = Some (JStr ''good'')"
  "selected_job_title scored_state = Some ''data engineer''"
  by (simp_all add: scored_state_def ready_state_def sample_start_def initial_state_def)

theorem persist_then_notify_witness:
  "save_call db_down_world scored_state = Inr False
   \<and> send_application_email db_down_world (email sample_resume) (candidate_name sample_resume)
        (Some ''data engineer'') (Fin 70) (JStr ''good'') = Inr True
   \<and> email_sent_status (snd (invoke_from db_down_world save_db scored_state))
   \<and> \<not> db_save_status (snd (invoke_from db_down_world save_db scored_state))
   \<and> error_message (snd (invoke_from db_down_world save_db scored_state)) =
       Some ''Failed to save results to the database.''
   \<and> save_call all_down_world scored_state = Inr False
   \<and> send_application_email all_down_world (email sample_resume) (candidate_name sample_resume)
        (Some ''data engineer'') (Fin 70) (JStr ''good'') = Inr False
   \<and> \<not> email_sent_status (snd (invoke_from all_down_world save_db scored_state))
   \<and> \<not> db_save_status (snd (invoke_from all_down_world save_db scored_state))
   \<and> error_message (snd (invoke_from all_down_world save_db scored_state)) =
       Some ''Failed to save results to the database.''"
proof -
  note s = scored_state_fields
  have call1: "save_call db_down_world scored_state = Inr False"
    by (simp add: save_call_def s save_match_results_def db_down_world_def sample_world_def)
  have call2: "save_call all_down_world scored_state = Inr False"
    by (simp add: save_call_def s save_match_results_def all_down_world_def db_down_world_def
        sample_world_def)
  have saved1: "error_message (save_to_database db_down_world scored_state) =
      Some ''Failed to save results to the database.''"
    using save_to_database_false [OF s(1,2) call1] by simp
  have saved2: "error_message (save_to_database all_down_world scored_state) =
      Some ''Failed to save results to the database.''"
    using save_to_database_false [OF s(1,2) call2] by simp
  have mail1: "send_application_email db_down_world (email sample_resume)
      (candidate_name sample_resume) (Some ''data engineer'') (Fin 70) (JStr ''good'') = Inr True"
    by code_simp
  have mail2: "send_application_email all_down_world (email sample_resume)
      (candidate_name sample_resume) (Some ''data engineer'') (Fin 70) (JStr ''good'') = Inr False"
    by code_simp
  have pre1: "\<not> truthy_str (error_message scored_state) \<and> match_score scored_state = Some (Fin 70)
      \<and> save_call db_down_world scored_state \<noteq> Inr True"
    using s call1 by simp
  have pre2: "\<not> truthy_str (error_message scored_state) \<and> match_score scored_state = Some (Fin 70)
      \<and> save_call all_down_world scored_state \<noteq> Inr True"
    using s call2 by simp
  have rf: "parsed_resume scored_state = Some sample_resume
      \<and> feedback scored_state = Some (JStr ''good'') \<and> truthy (JStr ''good'')"
    using s by simp
  note T1 = persist_then_notify [of scored_state db_down_world sample_start scored_state,
      THEN conjunct2, THEN conjunct2, THEN conjunct2, THEN conjunct2, THEN conjunct2,
      rule_format, OF pre1, THEN conjunct2, THEN conjunct2, rule_format, OF rf]
  note T2 = persist_then_notify [of scored_state all_down_world sample_start scored_state,
      THEN conjunct2, THEN conjunct2, THEN conjunct2, THEN conjunct2, THEN conjunct2,
      rule_format, OF pre2, THEN conjunct2, THEN conjunct2, rule_format, OF rf]
  from T1 mail1 saved1 s(6)
  have 1: "email_sent_status (snd (invoke_from db_down_world save_db scored_state))
    \<and> \<not> db_save_status (snd (invoke_from db_down_world save_db scored_state))
    \<and> error_message (snd (invoke_from db_down_world save_db scored_state)) =
       Some ''Failed to save results to the database.''"
    by auto
  from T2 mail2 saved2 s(6)
  have 2: "\<not> email_sent_status (snd (invoke_from all_down_world save_db scored_state))
    \<and> \<not> db_save_status (snd (invoke_from all_down_world save_db scored_state))
    \<and> error_message (snd (invoke_from all_down_world save_db scored_state)) =
       Some ''Failed to save results to the database.''"
    by auto
  from call1 mail1 1 call2 mail2 2 show ?thesis by simp
qed

subsection \<open>The gated stages\<close>

lemma load_and_validate_input_frame:
  "parsed_jd (load_and_validate_input w s) = parsed_jd s"
  "db_save_status (load_and_validate_input w s) = db_save_status s"
  "email_sent_status (load_and_validate_input w s) = email_sent_status s"
  "selected_job_title (load_and_validate_input w s) = selected_job_title s"
  by (simp_all add: load_and_validate_input_def initialization_error_def Let_def
      split: sum.splits)

lemma load_and_validate_input_catalog:
  assumes "\<not> truthy_str (error_message (load_and_validate_input w s))"
  shows "\<exists>df. read_csv w = Inr df \<and> job_descriptions_df (load_and_validate_input w s) = Some df"
  using assms
  by (cases "read_csv w")
     (simp_all add: load_and_validate_input_def initialization_error_def Let_def
      split: if_splits)

lemma process_resume_frame:
  "parsed_jd (process_resume w s) = parsed_jd s"
  "db_save_status (process_resume w s) = db_save_status s"
  "email_sent_status (process_resume w s) = email_sent_status s"
  "selected_job_title (process_resume w s) = selected_job_title s"
  "job_descriptions_df (process_resume w s) = job_descriptions_df s"
  by (simp_all add: process_resume_def split: sum.splits)

lemma lookup_and_parse_absent:
  assumes "matching_rows df title = []"
  shows "\<exists>e. lookup_and_parse w (Some title) (Some df) = Inl e"
  using assms by (simp add: lookup_and_parse_def raise_def)

lemma process_job_description_fails:
  assumes "\<not> truthy_str (error_message s)"
    and "parse_job_description w (selected_job_title s) (job_descriptions_df s) = Inl e"
  shows "process_job_description w s =
           s\<lparr>error_message := Some (''Job Description Parsing Failed: '' @ str_of_exn e),
             parsed_jd := None\<rparr>"
  using assms by (simp add: process_job_description_def)

lemma process_job_description_absent:
  assumes "\<not> truthy_str (error_message s)"
    and "selected_job_title s = Some title" and "job_descriptions_df s = Some df"
    and "matching_rows df title = []"
  shows "truthy_str (error_message (process_job_description w s))
    \<and> parsed_jd (process_job_description w s) = None
    \<and> db_save_status (process_job_description w s) = db_save_status s
    \<and> email_sent_status (process_job_description w s) = email_sent_status s"
proof -
  from lookup_and_parse_absent [OF assms(4)] obtain e
    where "lookup_and_parse w (Some title) (Some df) = Inl e" ..
  then obtain e' where "parse_job_description w (Some title) (Some df) = Inl e'"
    by (simp add: parse_job_description_def)
  with assms(1-3) have "process_job_description w s =
           s\<lparr>error_message := Some (''Job Description Parsing Failed: '' @ str_of_exn e'),
             parsed_jd := None\<rparr>"
    by (intro process_job_description_fails) simp_all
  then show ?thesis by simp
qed

lemma halted_run:
  assumes "parsed_jd s = None" and "\<not> db_save_status s" and "\<not> email_sent_status s"
    and "selected_job_title s = Some title"
    and "\<forall>df. read_csv w = Inr df \<longrightarrow> matching_rows df title = []"
  shows "truthy_str (error_message (snd (invoke w s)))
    \<and> parsed_jd (snd (invoke w s)) = None
    \<and> \<not> db_save_status (snd (invoke w s))
    \<and> \<not> email_sent_status (snd (invoke w s))
    \<and> save_db \<notin> set (fst (invoke w s))
    \<and> send_email \<notin> set (fst (invoke w s))"
proof -
  let ?s1 = "load_and_validate_input w s"
  let ?s2 = "process_resume w ?s1"
  let ?s3 = "process_job_description w ?s2"
  have f1: "parsed_jd ?s1 = None" "\<not> db_save_status ?s1" "\<not> email_sent_status ?s1"
    "selected_job_title ?s1 = Some title"
    using assms(1-4) by (simp_all add: load_and_validate_input_frame)
  have f2: "parsed_jd ?s2 = None" "\<not> db_save_status ?s2" "\<not> email_sent_status ?s2"
    "selected_job_title ?s2 = Some title"
    using f1 by (simp_all add: process_resume_frame)
  show ?thesis
  proof (cases "truthy_str (error_message ?s1)")
    case True
    with f1 show ?thesis
      by (simp add: invoke_def invoke_from_load_validate)
  next
    case ok1: False
    then obtain df where df: "read_csv w = Inr df" "job_descriptions_df ?s1 = Some df"
      using load_and_validate_input_catalog by blast
    with assms(5) have absent: "matching_rows df title = []" by simp
    show ?thesis
    proof (cases "truthy_str (error_message ?s2)")
      case True
      with ok1 f2 show ?thesis
        by (simp add: invoke_def invoke_from_load_validate invoke_from_parse_resume)
    next
      case ok2: False
      have "job_descriptions_df ?s2 = Some df"
        using df(2) by (simp add: process_resume_frame)
      with ok2 f2(4) absent
      have "truthy_str (error_message ?s3) \<and> parsed_jd ?s3 = None
        \<and> db_save_status ?s3 = db_save_status ?s2
        \<and> email_sent_status ?s3 = email_sent_status ?s2"
        by (intro process_job_description_absent)
      with ok1 ok2 f2 show ?thesis
        by (simp add: invoke_def invoke_from_load_validate invoke_from_parse_resume
            invoke_from_parse_jd)
    qed
  qed
qed

lemma gated_step:
  assumes "n \<in> {load_validate, parse_resume, parse_jd, match}"
  shows "invoke_from w n s =
     (if truthy_str (error_message (node_function w n s))
      then ([n], node_function w n s)
      else (n # fst (invoke_from w (next_stage n) (node_function w n s)),
            snd (invoke_from w (next_stage n) (node_function w n s))))"
  using assms
  by (auto simp: invoke_from_load_validate invoke_from_parse_resume invoke_from_parse_jd
      invoke_from_match invoke_from_save_db)

text \<open>
  C1: after each of the four gated stages the edge taken leads to \<^verbatim>\<open>END\<close> when the
  stage's state holds an error and to the next stage otherwise; with an error the run from
  that stage is the stage alone, so neither Persist nor Notify runs. A run for a title that
  matches no row of the catalog ends with an error, no job record, both flags False, and
  without the Persist and Notify stages.
\<close>

theorem short_circuit:
  assumes "n \<in> {load_validate, parse_resume, parse_jd, match}"
  shows "edge n (node_function w n s) =
       (if truthy_str (error_message (node_function w n s)) then END else next_stage n)
   \<and> invoke_from w n s =
       (if truthy_str (error_message (node_function w n s))
        then ([n], node_function w n s)
        else (n # fst (invoke_from w (next_stage n) (node_function w n s)),
              snd (invoke_from w (next_stage n) (node_function w n s))))
   \<and> (truthy_str (error_message (node_function w n s)) \<longrightarrow>
        save_db \<notin> set (fst (invoke_from w n s))
        \<and> send_email \<notin> set (fst (invoke_from w n s))
        \<and> snd (invoke_from w n s) = node_function w n s)
   \<and> ((\<forall>df. read_csv w = Inr df \<longrightarrow> matching_rows df title = []) \<longrightarrow>
        truthy_str (error_message (snd (invoke w (initial_state file_bytes filename title))))
        \<and> parsed_jd (snd (invoke w (initial_state file_bytes filename title))) = None
        \<and> \<not> db_save_status (snd (invoke w (initial_state file_bytes filename title)))
        \<and> \<not> email_sent_status (snd (invoke w (initial_state file_bytes filename title)))
        \<and> save_db \<notin> set (fst (invoke w (initial_state file_bytes filename title)))
        \<and> send_email \<notin> set (fst (invoke w (initial_state file_bytes filename title))))"
proof (intro conjI impI)
  from assms show "edge n (node_function w n s) =
       (if truthy_str (error_message (node_function w n s)) then END else next_stage n)"
    by auto
  from assms show step: "invoke_from w n s =
       (if truthy_str (error_message (node_function w n s))
        then ([n], node_function w n s)
        else (n # fst (invoke_from w (next_stage n) (node_function w n s)),
              snd (invoke_from w (next_stage n) (node_function w n s))))"
    by (rule gated_step)
  assume "truthy_str (error_message (node_function w n s))"
  with step have "invoke_from w n s = ([n], node_function w n s)" by simp
  with assms show "save_db \<notin> set (fst (invoke_from w n s))"
    "send_email \<notin> set (fst (invoke_from w n s))"
    "snd (invoke_from w n s) = node_function w n s"
    by auto
next
  let ?s0 = "initial_state file_bytes filename title"
  assume absent: "\<forall>df. read_csv w = Inr df \<longrightarrow> matching_rows df title = []"
  have "parsed_jd ?s0 = None" "\<not> db_save_status ?s0" "\<not> email_sent_status ?s0"
    "selected_job_title ?s0 = Some title"
    by (simp_all add: initial_state_def)
  from halted_run [OF this absent]
  show "truthy_str (error_message (snd (invoke w ?s0)))"
    "parsed_jd (snd (invoke w ?s0)) = None"
    "\<not> db_save_status (snd (invoke w ?s0))"
    "\<not> email_sent_status (snd (invoke w ?s0))"
    "save_db \<notin> set (fst (invoke w ?s0))"
    "send_email \<notin> set (fst (invoke w ?s0))"
    by simp_all
qed

theorem short_circuit_witness:
  "matching_rows sample_catalog ''astronaut'' = []
   \<and> truthy_str (error_message (process_job_description sample_world absent_ready))
   \<and> invoke_from sample_world parse_jd absent_ready =
       ([parse_jd], process_job_description sample_world absent_ready)
   \<and> truthy_str (error_message (snd (invoke sample_world absent_start)))
   \<and> parsed_jd (snd (invoke sample_world absent_start)) = None
   \<and> \<not> db_save_status (snd (invoke sample_world absent_start))
   \<and> \<not> email_sent_status (snd (invoke sample_world absent_start))
   \<and> save_db \<notin> set (fst (invoke sample_world absent_start))
   \<and> send_email \<notin> set (fst (invoke sample_world absent_start))"
proof -
  have absent: "matching_rows sample_catalog ''astronaut'' = []"
    by (simp add: matching_rows_def sample_catalog_def lower_def strip_def is_space_def
        lower_char_def)
  have ready: "\<not> truthy_str (error_message absent_ready)"
    "selected_job_title absent_ready = Some ''astronaut''"
    "job_descriptions_df absent_ready = Some sample_catalog"
    by (simp_all add: absent_ready_def absent_start_def initial_state_def)
  from process_job_description_absent [OF ready absent]
  have err: "truthy_str (error_message (process_job_description sample_world absent_ready))"
    by simp
  have gate: "parse_jd \<in> {load_validate, parse_resume, parse_jd, match}" by simp
  from short_circuit [OF gate, of sample_world absent_ready] err
  have 1: "invoke_from sample_world parse_jd absent_ready =
       ([parse_jd], process_job_description sample_world absent_ready)"
    by simp
  have "\<forall>df. read_csv sample_world = Inr df \<longrightarrow> matching_rows df ''astronaut'' = []"
    using absent by (simp add: sample_world_def)
  with short_circuit [OF gate, of sample_world absent_ready "''astronaut''"
      "''resume text''" "''cv.txt''"]
  have 2: "truthy_str (error_message (snd (invoke sample_world absent_start)))
   \<and> parsed_jd (snd (invoke sample_world absent_start)) = None
   \<and> \<not> db_save_status (snd (invoke sample_world absent_start))
   \<and> \<not> email_sent_status (snd (invoke sample_world absent_start))
   \<and> save_db \<notin> set (fst (invoke sample_world absent_start))
   \<and> send_email \<notin> set (fst (invoke sample_world absent_start))"
    unfolding absent_start_def by blast
  from absent err 1 2 show ?thesis by blast
qed

subsection \<open>The ExtractJob stage\<close>

lemma map_of_overlay:
  "map_of (overlay k cell parsed_data) k' =
     (case cell of
        None \<Rightarrow> map_of parsed_data k'
      | Some c \<Rightarrow>
          if k' = k \<and> c \<noteq> [] \<and> \<not> truthy_opt (map_of parsed_data k)
          then Some (JStr c) else map_of parsed_data k')"
  by (cases cell) (auto simp: overlay_def update_conv')

lemma supplement_job_title:
  "map_of (supplement selected cc lc parsed_data) ''job_title'' = Some (JStr selected)"
  by (simp add: supplement_def map_of_overlay update_conv' split: option.splits)

lemma supplement_company:
  "map_of (supplement selected cc lc parsed_data) ''company'' =
     (case cc of
        None \<Rightarrow> map_of parsed_data ''company''
      | Some c \<Rightarrow>
          if c \<noteq> [] \<and> \<not> truthy_opt (map_of parsed_data ''company'')
          then Some (JStr c) else map_of parsed_data ''company'')"
  by (simp add: supplement_def map_of_overlay update_conv' split: option.splits)

lemma supplement_location:
  "map_of (supplement selected cc lc parsed_data) ''location'' =
     (case lc of
        None \<Rightarrow> map_of parsed_data ''location''
      | Some c \<Rightarrow>
          if c \<noteq> [] \<and> \<not> truthy_opt (map_of parsed_data ''location'')
          then Some (JStr c) else map_of parsed_data ''location'')"
  by (simp add: supplement_def map_of_overlay update_conv' split: option.splits)

lemma opt_str_field_string:
  assumes "opt_str_field w kvs k = Inr f" and "map_of kvs k = Some (JStr c)"
  shows "f = Some c"
  using assms by (simp add: opt_str_field_def str_validator_def bindE_def)

lemma JobDescriptionInfo_init_fields:
  assumes "JobDescriptionInfo_init w kvs = Inr jd"
  shows "\<exists>t. map_of kvs ''job_title'' = Some t \<and> str_validator w t = Inr (job_title jd)"
    and "opt_str_field w kvs ''company'' = Inr (company jd)"
    and "opt_str_field w kvs ''location'' = Inr (location jd)"
proof -
  from assms obtain t where t: "map_of kvs ''job_title'' = Some t"
    by (cases "map_of kvs ''job_title''") (simp_all add: JobDescriptionInfo_init_def raise_def)
  with assms obtain f1 f2 f3 f4 f5 f6 f7 f8 f9 f10 where
    f: "str_validator w t = Inr f1" "opt_str_field w kvs ''company'' = Inr f2"
      "opt_str_field w kvs ''location'' = Inr f3"
    and jd: "jd = \<lparr>job_title = f1, company = f2, location = f3, summary = f4,
            responsibilities = f5, required_skills = f6, preferred_skills = f7,
            required_experience = f8, required_education = f9, misc = f10\<rparr>"
    unfolding JobDescriptionInfo_init_def
    by (auto dest!: bindE_Inr)
  from t f jd show "\<exists>t. map_of kvs ''job_title'' = Some t \<and> str_validator w t = Inr (job_title jd)"
    and "opt_str_field w kvs ''company'' = Inr (company jd)"
    and "opt_str_field w kvs ''location'' = Inr (location jd)"
    by simp_all
qed

lemma raise_neq_Inr: "raise w c \<noteq> Inr x"
  by (simp add: raise_def)

lemma lookup_and_parse_succeeds:
  assumes "lookup_and_parse w (Some selected) (Some df) = Inr jd"
  shows "\<exists>r rs text parsed_data.
           matching_rows df selected = r # rs
         \<and> Job_Description r = Some text
         \<and> json_loads w (call_deepseek_for_jd_parsing w text selected) = Some (JObj parsed_data)
         \<and> JobDescriptionInfo_init w
              (supplement selected (optional_cell df ''Company'' (Company r))
                 (optional_cell df ''Location'' (Location r)) parsed_data) = Inr jd"
proof -
  from assms obtain r rs where rows: "matching_rows df selected = r # rs"
    by (cases "matching_rows df selected")
       (simp_all add: lookup_and_parse_def raise_def split: if_splits)
  with assms obtain jd_text where jd_text: "Job_Description r = Some jd_text"
    by (cases "Job_Description r")
       (simp_all add: lookup_and_parse_def raise_def Let_def split: if_splits)
  let ?out = "call_deepseek_for_jd_parsing w jd_text selected"
  let ?cc = "optional_cell df ''Company'' (Company r)"
  let ?lc = "optional_cell df ''Location'' (Location r)"
  from assms rows jd_text
  have "bindE (loads w (JStr ?out)) (\<lambda>parsed.
          case parsed of
            JObj parsed_data \<Rightarrow> JobDescriptionInfo_init w (supplement selected ?cc ?lc parsed_data)
          | _ \<Rightarrow> raise w TypeError) = Inr jd"
    by (simp add: lookup_and_parse_def raise_neq_Inr Let_def split: if_splits)
  then obtain parsed where p: "loads w (JStr ?out) = Inr parsed"
    and c: "(case parsed of
            JObj parsed_data \<Rightarrow> JobDescriptionInfo_init w (supplement selected ?cc ?lc parsed_data)
          | _ \<Rightarrow> raise w TypeError) = Inr jd"
    by (auto dest!: bindE_Inr)
  from c obtain parsed_data where pd: "parsed = JObj parsed_data"
    and init: "JobDescriptionInfo_init w (supplement selected ?cc ?lc parsed_data) = Inr jd"
    by (cases parsed) (simp_all add: raise_def)
  from p pd have "json_loads w ?out = Some (JObj parsed_data)"
    by (cases "json_loads w ?out") (simp_all add: loads_def raise_def)
  with rows jd_text init show ?thesis by blast
qed

lemma process_job_description_succeeds:
  assumes "\<not> truthy_str (error_message s)"
    and "\<not> truthy_str (error_message (process_job_description w s))"
  shows "\<exists>selected df jd. selected_job_title s = Some selected
    \<and> job_descriptions_df s = Some df
    \<and> lookup_and_parse w (Some selected) (Some df) = Inr jd
    \<and> process_job_description w s = s\<lparr>parsed_jd := Some jd, error_message := None\<rparr>"
proof -
  from assms obtain jd where
    p: "parse_job_description w (selected_job_title s) (job_descriptions_df s) = Inr jd"
    by (cases "parse_job_description w (selected_job_title s) (job_descriptions_df s)")
       (simp_all add: process_job_description_def)
  then have l: "lookup_and_parse w (selected_job_title s) (job_descriptions_df s) = Inr jd"
    by (cases "lookup_and_parse w (selected_job_title s) (job_descriptions_df s)")
       (simp_all add: parse_job_description_def)
  then obtain df where df: "job_descriptions_df s = Some df"
    by (cases "job_descriptions_df s") (simp_all add: lookup_and_parse_def raise_neq_Inr)
  with l obtain selected where sel: "selected_job_title s = Some selected"
    by (cases "selected_job_title s")
       (simp_all add: lookup_and_parse_def raise_neq_Inr split: if_splits)
  from assms(1) p have "process_job_description w s =
      s\<lparr>parsed_jd := Some jd, error_message := None\<rparr>"
    by (simp add: process_job_description_def)
  with l df sel show ?thesis by simp
qed

lemma built_from_supplement:
  assumes "JobDescriptionInfo_init w (supplement selected cc lc parsed_data) = Inr jd"
  shows "job_title jd = selected"
    and "map_of parsed_data ''company'' = Some (JStr c) \<and> c \<noteq> [] \<longrightarrow> company jd = Some c"
    and "cc = Some c \<and> c \<noteq> [] \<and> \<not> truthy_opt (map_of parsed_data ''company'')
           \<longrightarrow> company jd = Some c"
    and "map_of parsed_data ''location'' = Some (JStr c) \<and> c \<noteq> [] \<longrightarrow> location jd = Some c"
    and "lc = Some c \<and> c \<noteq> [] \<and> \<not> truthy_opt (map_of parsed_data ''location'')
           \<longrightarrow> location jd = Some c"
proof -
  let ?kvs = "supplement selected cc lc parsed_data"
  from JobDescriptionInfo_init_fields(1) [OF assms]
  show "job_title jd = selected"
    by (auto simp: supplement_job_title str_validator_def)
  have co: "opt_str_field w ?kvs ''company'' = Inr (company jd)"
    and lo: "opt_str_field w ?kvs ''location'' = Inr (location jd)"
    using JobDescriptionInfo_init_fields(2,3) [OF assms] by simp_all
  show "map_of parsed_data ''company'' = Some (JStr c) \<and> c \<noteq> [] \<longrightarrow> company jd = Some c"
  proof
    assume "map_of parsed_data ''company'' = Some (JStr c) \<and> c \<noteq> []"
    then have "map_of ?kvs ''company'' = Some (JStr c)"
      by (simp add: supplement_company split: option.splits)
    with co show "company jd = Some c" by (rule opt_str_field_string)
  qed
  show "cc = Some c \<and> c \<noteq> [] \<and> \<not> truthy_opt (map_of parsed_data ''company'')
           \<longrightarrow> company jd = Some c"
  proof
    assume "cc = Some c \<and> c \<noteq> [] \<and> \<not> truthy_opt (map_of parsed_data ''company'')"
    then have "map_of ?kvs ''company'' = Some (JStr c)"
      by (simp add: supplement_company)
    with co show "company jd = Some c" by (rule opt_str_field_string)
  qed
  show "map_of parsed_data ''location'' = Some (JStr c) \<and> c \<noteq> [] \<longrightarrow> location jd = Some c"
  proof
    assume "map_of parsed_data ''location'' = Some (JStr c) \<and> c \<noteq> []"
    then have "map_of ?kvs ''location'' = Some (JStr c)"
      by (simp add: supplement_location split: option.splits)
    with lo show "location jd = Some c" by (rule opt_str_field_string)
  qed
  show "lc = Some c \<and> c \<noteq> [] \<and> \<not> truthy_opt (map_of parsed_data ''location'')
           \<longrightarrow> location jd = Some c"
  proof
    assume "lc = Some c \<and> c \<noteq> [] \<and> \<not> truthy_opt (map_of parsed_data ''location'')"
    then have "map_of ?kvs ''location'' = Some (JStr c)"
      by (simp add: supplement_location)
    with lo show "location jd = Some c" by (rule opt_str_field_string)
  qed
qed

text \<open>
  C7: when the ExtractJob stage succeeds, the record it stores is built from the model's
  decoded reply after the overrides: its title is the selected title; under \<^verbatim>\<open>company\<close>
  (and \<^verbatim>\<open>location\<close>) the overridden reply holds the catalog's value exactly when that value
  is a non-empty string and the reply has no truthy value there, and the reply's own value
  otherwise; so a non-empty string of the model is the record's field, and the catalog's
  value is the record's field when the model gave none.
\<close>

theorem catalog_overrides:
  assumes "\<not> truthy_str (error_message s)"
    and "\<not> truthy_str (error_message (process_job_description w s))"
  shows "\<exists>selected df jd r rs jd_text parsed_data.
      selected_job_title s = Some selected
    \<and> job_descriptions_df s = Some df
    \<and> parsed_jd (process_job_description w s) = Some jd
    \<and> job_title jd = selected
    \<and> matching_rows df selected = r # rs
    \<and> Job_Description r = Some jd_text
    \<and> json_loads w (call_deepseek_for_jd_parsing w jd_text selected) = Some (JObj parsed_data)
    \<and> JobDescriptionInfo_init w
         (supplement selected (optional_cell df ''Company'' (Company r))
            (optional_cell df ''Location'' (Location r)) parsed_data) = Inr jd
    \<and> map_of (supplement selected (optional_cell df ''Company'' (Company r))
                (optional_cell df ''Location'' (Location r)) parsed_data) ''company'' =
        (if truthy_str (optional_cell df ''Company'' (Company r))
            \<and> \<not> truthy_opt (map_of parsed_data ''company'')
         then map_option JStr (optional_cell df ''Company'' (Company r))
         else map_of parsed_data ''company'')
    \<and> map_of (supplement selected (optional_cell df ''Company'' (Company r))
                (optional_cell df ''Location'' (Location r)) parsed_data) ''location'' =
        (if truthy_str (optional_cell df ''Location'' (Location r))
            \<and> \<not> truthy_opt (map_of parsed_data ''location'')
         then map_option JStr (optional_cell df ''Location'' (Location r))
         else map_of parsed_data ''location'')
    \<and> (\<forall>c. map_of parsed_data ''company'' = Some (JStr c) \<and> c \<noteq> [] \<longrightarrow> company jd = Some c)
    \<and> (\<forall>c. optional_cell df ''Company'' (Company r) = Some c \<and> c \<noteq> []
            \<and> \<not> truthy_opt (map_of parsed_data ''company'') \<longrightarrow> company jd = Some c)
    \<and> (\<forall>c. map_of parsed_data ''location'' = Some (JStr c) \<and> c \<noteq> [] \<longrightarrow> location jd = Some c)
    \<and> (\<forall>c. optional_cell df ''Location'' (Location r) = Some c \<and> c \<noteq> []
            \<and> \<not> truthy_opt (map_of parsed_data ''location'') \<longrightarrow> location jd = Some c)"
proof -
  from process_job_description_succeeds [OF assms] obtain selected df jd where
    sel: "selected_job_title s = Some selected" and df: "job_descriptions_df s = Some df"
    and l: "lookup_and_parse w (Some selected) (Some df) = Inr jd"
    and st: "process_job_description w s = s\<lparr>parsed_jd := Some jd, error_message := None\<rparr>"
    by blast
  from lookup_and_parse_succeeds [OF l] obtain r rs jd_text parsed_data where
    rows: "matching_rows df selected = r # rs" and tx: "Job_Description r = Some jd_text"
    and js: "json_loads w (call_deepseek_for_jd_parsing w jd_text selected) =
               Some (JObj parsed_data)"
    and init: "JobDescriptionInfo_init w
         (supplement selected (optional_cell df ''Company'' (Company r))
            (optional_cell df ''Location'' (Location r)) parsed_data) = Inr jd"
    by blast
  let ?cc = "optional_cell df ''Company'' (Company r)"
  let ?lc = "optional_cell df ''Location'' (Location r)"
  have co: "map_of (supplement selected ?cc ?lc parsed_data) ''company'' =
        (if truthy_str ?cc \<and> \<not> truthy_opt (map_of parsed_data ''company'')
         then map_option JStr ?cc else map_of parsed_data ''company'')"
    by (cases ?cc) (simp_all add: supplement_company)
  have lo: "map_of (supplement selected ?cc ?lc parsed_data) ''location'' =
        (if truthy_str ?lc \<and> \<not> truthy_opt (map_of parsed_data ''location'')
         then map_option JStr ?lc else map_of parsed_data ''location'')"
    by (cases ?lc) (simp_all add: supplement_location)
  from st have stored: "parsed_jd (process_job_description w s) = Some jd" by simp
  note b = built_from_supplement [OF init]
  from sel df stored b(1) rows tx js init co lo b(2) b(3) b(4) b(5)
  show ?thesis by blast
qed

lemma jd_ready_fields:
  "\<not> truthy_str (error_message jd_ready)"
  "selected_job_title jd_ready = Some ''data engineer''"
  "job_descriptions_df jd_ready = Some sample_catalog"
  by (simp_all add: jd_ready_def sample_start_def initial_state_def)

lemma sample_rows:
  "matching_rows sample_catalog ''data engineer'' =
     [\<lparr>Job_Title = Some ''data engineer'', Job_Description = Some ''build data pipelines'',
       Company = Some ''acme'', Location = None\<rparr>]"
  by (simp add: matching_rows_def sample_catalog_def lower_def strip_def is_space_def
      lower_char_def)

lemma sample_columns:
  "columns sample_catalog = [''Job Title'', ''Job Description'', ''Company'', ''Location'']"
  by (simp add: sample_catalog_def)

lemma sample_jd_reply:
  \<open>call_deepseek_for_jd_parsing sample_world ''build data pipelines'' ''data engineer'' =
     ''{"summary": "pipelines"}''\<close>
  by (simp add: call_deepseek_for_jd_parsing_def jd_request_def chat_reply_choices
      chat_reply_content jd_content_def bindE_def sample_world_def sample_loads_def)

lemma globex_jd_reply:
  \<open>call_deepseek_for_jd_parsing globex_world ''build data pipelines'' ''data engineer'' =
     ''{"summary": "pipelines", "company": "globex"}''\<close>
  by (simp add: call_deepseek_for_jd_parsing_def jd_request_def chat_reply_choices
      chat_reply_content jd_content_def bindE_def globex_world_def sample_world_def
      sample_loads_def)

lemma sample_world_library:
  "json_loads sample_world = sample_loads" "json_loads globex_world = sample_loads"
  "coerce_str sample_world = (\<lambda>v. None)" "coerce_str globex_world = (\<lambda>v. None)"
  "coerce_dict sample_world = (\<lambda>v. None)" "coerce_dict globex_world = (\<lambda>v. None)"
  by (simp_all add: globex_world_def sample_world_def)

lemma sample_lookup:
  "lookup_and_parse sample_world (Some ''data engineer'') (Some sample_catalog) = Inr sample_jd"
proof -
  have \<open>lookup_and_parse sample_world (Some ''data engineer'') (Some sample_catalog) =
      bindE (loads sample_world (JStr ''{"summary": "pipelines"}'')) (\<lambda>parsed.
        case parsed of
          JObj parsed_data \<Rightarrow>
            JobDescriptionInfo_init sample_world
              (supplement ''data engineer'' (Some ''acme'') None parsed_data)
        | _ \<Rightarrow> raise sample_world TypeError)\<close>
    by (simp add: lookup_and_parse_def sample_rows sample_columns Let_def isspace_def
        is_space_def optional_cell_def sample_jd_reply)
  also have "\<dots> = Inr sample_jd"
    by (simp add: loads_def sample_world_library sample_loads_def bindE_def supplement_def
        overlay_def JobDescriptionInfo_init_def str_validator_def opt_str_field_def
        str_list_field_def dict_field_def sample_jd_def)
  finally show ?thesis .
qed

lemma globex_lookup:
  "lookup_and_parse globex_world (Some ''data engineer'') (Some sample_catalog) =
     Inr (sample_jd\<lparr>company := Some ''globex''\<rparr>)"
proof -
  have \<open>lookup_and_parse globex_world (Some ''data engineer'') (Some sample_catalog) =
      bindE (loads globex_world (JStr ''{"summary": "pipelines", "company": "globex"}''))
        (\<lambda>parsed.
          case parsed of
            JObj parsed_data \<Rightarrow>
              JobDescriptionInfo_init globex_world
                (supplement ''data engineer'' (Some ''acme'') None parsed_data)
          | _ \<Rightarrow> raise globex_world TypeError)\<close>
    by (simp add: lookup_and_parse_def sample_rows sample_columns Let_def isspace_def
        is_space_def optional_cell_def globex_jd_reply)
  also have "\<dots> = Inr (sample_jd\<lparr>company := Some ''globex''\<rparr>)"
    by (simp add: loads_def sample_world_library sample_loads_def bindE_def supplement_def
        overlay_def JobDescriptionInfo_init_def str_validator_def opt_str_field_def
        str_list_field_def dict_field_def sample_jd_def)
  finally show ?thesis .
qed

lemma sample_extract_job:
  "process_job_description sample_world jd_ready =
     jd_ready\<lparr>parsed_jd := Some sample_jd, error_message := None\<rparr>"
  by (simp add: process_job_description_def parse_job_description_def jd_ready_fields
      sample_lookup)

lemma globex_extract_job:
  "process_job_description globex_world jd_ready =
     jd_ready\<lparr>parsed_jd := Some (sample_jd\<lparr>company := Some ''globex''\<rparr>), error_message := None\<rparr>"
  by (simp add: process_job_description_def parse_job_description_def jd_ready_fields
      globex_lookup)

theorem catalog_overrides_witness:
  "\<not> truthy_str (error_message jd_ready)
   \<and> \<not> truthy_str (error_message (process_job_description sample_world jd_ready))
   \<and> (\<exists>jd. parsed_jd (process_job_description sample_world jd_ready) = Some jd
         \<and> job_title jd = ''data engineer'' \<and> company jd = Some ''acme'')
   \<and> \<not> truthy_str (error_message (process_job_description globex_world jd_ready))
   \<and> (\<exists>jd. parsed_jd (process_job_description globex_world jd_ready) = Some jd
         \<and> job_title jd = ''data engineer'' \<and> company jd = Some ''globex'')"
proof -
  have ok1: "\<not> truthy_str (error_message (process_job_description sample_world jd_ready))"
    and ok2: "\<not> truthy_str (error_message (process_job_description globex_world jd_ready))"
    by (simp_all add: sample_extract_job globex_extract_job)
  from catalog_overrides [OF jd_ready_fields(1) ok1] obtain selected jd where
    1: "selected_job_title jd_ready = Some selected"
      "parsed_jd (process_job_description sample_world jd_ready) = Some jd"
      "job_title jd = selected"
    by blast
  then have "selected = ''data engineer''" "jd = sample_jd"
    by (simp_all add: jd_ready_fields sample_extract_job)
  with 1(3) have "job_title jd = ''data engineer''" "company jd = Some ''acme''"
    by (simp_all add: sample_jd_def)
  with 1 have a: "\<exists>jd. parsed_jd (process_job_description sample_world jd_ready) = Some jd
         \<and> job_title jd = ''data engineer'' \<and> company jd = Some ''acme''"
    by blast
  from catalog_overrides [OF jd_ready_fields(1) ok2] obtain selected' jd' where
    2: "selected_job_title jd_ready = Some selected'"
      "parsed_jd (process_job_description globex_world jd_ready) = Some jd'"
      "job_title jd' = selected'"
    by blast
  then have "selected' = ''data engineer''" "jd' = sample_jd\<lparr>company := Some ''globex''\<rparr>"
    by (simp_all add: jd_ready_fields globex_extract_job)
  with 2(3) have "job_title jd' = ''data engineer''" "company jd' = Some ''globex''"
    by (simp_all add: sample_jd_def)
  with 2 have b: "\<exists>jd. parsed_jd (process_job_description globex_world jd_ready) = Some jd
         \<and> job_title jd = ''data engineer'' \<and> company jd = Some ''globex''"
    by blast
  from jd_ready_fields(1) ok1 a ok2 b show ?thesis by blast
qed

subsection \<open>Runs in which the program departs from its specification\<close>

lemma perform_matching_reports_nothing:
  assumes "\<not> truthy_str (error_message s)"
    and "parsed_resume s = Some r" and "parsed_jd s = Some j"
  shows "error_message (perform_matching w s) = None"
    and "match_score (perform_matching w s) \<noteq> None"
proof -
  from calculate_returns [of w r j] obtain res
    where "calculate_match_and_feedback w r j = Inr res" by blast
  then have "calculate_match_and_feedback w r j = Inr (fst res, snd res)" by simp
  from perform_matching_runs [OF assms this]
  show "error_message (perform_matching w s) = None"
    and "match_score (perform_matching w s) \<noteq> None"
    by simp_all
qed

text \<open>
  C4: the claim fails on the code. In the world whose scoring request times out, the run goes
  through all six stages: the Score stage stores the default response (score 0.0 and the
  error text as feedback) and no error, the row is saved and the mail is sent.
\<close>

theorem scoring_failure_goes_unreported:
  "fst (invoke timeout_world sample_start) =
     [load_validate, parse_resume, parse_jd, match, save_db, send_email]
   \<and> error_message (snd (invoke timeout_world sample_start)) = None
   \<and> match_score (snd (invoke timeout_world sample_start)) = Some (Fin 0)
   \<and> feedback (snd (invoke timeout_world sample_start)) =
       Some (JStr ''Error: Could not generate matching results.'')
   \<and> db_save_status (snd (invoke timeout_world sample_start))
   \<and> email_sent_status (snd (invoke timeout_world sample_start))"
  by code_simp

text \<open>
  C9: the claim fails on the code. When the scoring reply holds \<^verbatim>\<open>"feedback": null\<close>, the
  run ends with a score and without feedback.
\<close>

theorem score_without_feedback:
  "fst (invoke null_feedback_world sample_start) =
     [load_validate, parse_resume, parse_jd, match, save_db, send_email]
   \<and> match_score (snd (invoke null_feedback_world sample_start)) = Some (Fin 70)
   \<and> feedback (snd (invoke null_feedback_world sample_start)) = None
   \<and> db_save_status (snd (invoke null_feedback_world sample_start))"
  by code_simp

text \<open>
  C3: the claim fails on the code. With a job title of two lines and a store that refuses the
  insert, the run enters the Notify stage with the error of the Persist stage, the mail
  library refuses the subject header, and the handler of \<^verbatim>\<open>send_candidate_email\<close> replaces
  the error by its own.
\<close>

theorem first_error_overwritten:
  "map_option error_message (invoke_until two_line_world send_email load_validate two_line_start) =
     Some (Some ''Failed to save results to the database.'')
   \<and> fst (invoke two_line_world two_line_start) =
       [load_validate, parse_resume, parse_jd, match, save_db, send_email]
   \<and> error_message (snd (invoke two_line_world two_line_start)) =
       Some (''Email Sending Failed: '' @
             ''Header values may not contain linefeed or carriage return characters'')"
  by code_simp

subsection \<open>What the stages keep\<close>

lemma process_resume_keeps:
  assumes "truthy_str (error_message s)"
  shows "process_resume w s = s"
  using assms by (simp add: process_resume_def)

lemma process_job_description_keeps:
  assumes "truthy_str (error_message s)"
  shows "process_job_description w s = s"
  using assms by (simp add: process_job_description_def)

lemma perform_matching_keeps:
  assumes "truthy_str (error_message s)"
  shows "perform_matching w s = s"
  using assms by (simp add: perform_matching_def missing_inputs_def)

text \<open>
  An error that a stage finds on entry is still there when the stage returns, for every
  stage after the first: the two extraction stages and the Score stage return the state as it
  is, the Persist stage only sets its flag, and the Notify stage keeps the error in all its
  branches but the handler of an exception of the mail call.
\<close>

theorem later_stages_keep_error:
  assumes "truthy_str (error_message s)"
    and "n \<in> {parse_resume, parse_jd, match, save_db}
         \<or> (n = send_email
              \<and> (match_score s = None \<or> parsed_resume s = None \<or> \<not> truthy_opt (feedback s)
                   \<or> (\<forall>e. email_call w s \<noteq> Inl e)))"
  shows "error_message (node_function w n s) = error_message s"
proof -
  from assms(2) consider
      (gated) "n \<in> {parse_resume, parse_jd, match}"
    | (save) "n = save_db"
    | (skip) "n = send_email"
        "match_score s = None \<or> parsed_resume s = None \<or> \<not> truthy_opt (feedback s)"
    | (mail) "n = send_email"
        "\<not> (match_score s = None \<or> parsed_resume s = None \<or> \<not> truthy_opt (feedback s))"
        "\<forall>e. email_call w s \<noteq> Inl e"
    by blast
  then show ?thesis
  proof cases
    case gated
    with assms(1) show ?thesis
      by (auto simp: process_resume_keeps process_job_description_keeps perform_matching_keeps)
  next
    case save
    with assms(1) show ?thesis by (simp add: save_to_database_skips)
  next
    case skip
    with assms(1) show ?thesis by (simp add: send_candidate_email_skips)
  next
    case mail
    then obtain x r where xr: "match_score s = Some x" "parsed_resume s = Some r"
      "truthy_opt (feedback s)"
      by auto
    from mail(3) obtain success where "email_call w s = Inr success"
      by (cases "email_call w s") auto
    from send_candidate_email_returns [OF xr this] assms(1) mail(1)
    show ?thesis by simp
  qed
qed

theorem later_stages_keep_error_witness:
  "truthy_str (error_message no_feedback_state)
   \<and> feedback no_feedback_state = None
   \<and> error_message (node_function sample_world send_email no_feedback_state) =
       Some ''Failed to save results to the database.''
   \<and> error_message (node_function sample_world save_db no_feedback_state) =
       Some ''Failed to save results to the database.''"
proof -
  have e: "truthy_str (error_message no_feedback_state)"
    "feedback no_feedback_state = None"
    "error_message no_feedback_state = Some ''Failed to save results to the database.''"
    by (simp_all add: no_feedback_state_def)
  have 1: "error_message (node_function sample_world send_email no_feedback_state) =
      error_message no_feedback_state"
    using e by (intro later_stages_keep_error) simp_all
  have 2: "error_message (node_function sample_world save_db no_feedback_state) =
      error_message no_feedback_state"
    using e by (intro later_stages_keep_error) simp_all
  from e 1 2 show ?thesis by simp
qed

lemma score_fields_frame:
  "match_score (load_and_validate_input w s) = match_score s"
  "feedback (load_and_validate_input w s) = feedback s"
  "match_score (process_resume w s) = match_score s"
  "feedback (process_resume w s) = feedback s"
  "match_score (process_job_description w s) = match_score s"
  "feedback (process_job_description w s) = feedback s"
  "match_score (save_to_database w s) = match_score s"
  "feedback (save_to_database w s) = feedback s"
  "match_score (send_candidate_email w s) = match_score s"
  "feedback (send_candidate_email w s) = feedback s"
  by (simp_all add: load_and_validate_input_def initialization_error_def process_resume_def
      process_job_description_def save_to_database_def send_candidate_email_def Let_def
      split: sum.splits)

lemma perform_matching_feedback:
  assumes "feedback s \<noteq> None \<longrightarrow> match_score s \<noteq> None"
  shows "feedback (perform_matching w s) \<noteq> None \<longrightarrow> match_score (perform_matching w s) \<noteq> None"
  using assms
  by (auto simp: perform_matching_def missing_inputs_def
      split: option.splits sum.splits prod.splits)

lemma node_function_feedback:
  assumes "feedback s \<noteq> None \<longrightarrow> match_score s \<noteq> None"
  shows "feedback (node_function w n s) \<noteq> None \<longrightarrow> match_score (node_function w n s) \<noteq> None"
  using assms perform_matching_feedback [OF assms, of w]
  by (cases n) (simp_all add: score_fields_frame)

lemma invoke_from_feedback:
  assumes "feedback s \<noteq> None \<longrightarrow> match_score s \<noteq> None"
  shows "feedback (snd (invoke_from w n s)) \<noteq> None \<longrightarrow>
           match_score (snd (invoke_from w n s)) \<noteq> None"
  using assms
proof (induction w n s rule: invoke_from.induct)
  case (1 w n s)
  show ?case
  proof (cases "n = END")
    case True
    with "1.prems" show ?thesis by (simp add: invoke_from.simps)
  next
    case False
    let ?s1 = "node_function w n s"
    have "feedback ?s1 \<noteq> None \<longrightarrow> match_score ?s1 \<noteq> None"
      using "1.prems" by (rule node_function_feedback)
    with "1.IH" [OF False refl] False show ?thesis
      by (simp add: invoke_from.simps [of w n s] Let_def)
  qed
qed

text \<open>
  In the final state of every run, a feedback that is set comes with a score: the two fields
  are written by the Score stage only, which never stores a feedback without a score.
\<close>

theorem feedback_comes_with_score:
  "feedback (snd (invoke w (initial_state file_bytes filename selected_job))) \<noteq> None \<longrightarrow>
   match_score (snd (invoke w (initial_state file_bytes filename selected_job))) \<noteq> None"
  unfolding invoke_def
  by (rule invoke_from_feedback) (simp add: initial_state_def)

theorem feedback_comes_with_score_witness:
  "feedback (snd (invoke sample_world sample_start)) = Some (JStr ''good'')
   \<and> match_score (snd (invoke sample_world sample_start)) \<noteq> None"
proof -
  have f: "feedback (snd (invoke sample_world sample_start)) = Some (JStr ''good'')"
    by code_simp
  with feedback_comes_with_score [of sample_world "''resume text''" "''cv.txt''"
      "''data engineer''"]
  have "match_score (snd (invoke sample_world sample_start)) \<noteq> None"
    by (simp add: sample_start_def)
  with f show ?thesis by simp
qed

end
